theory Spec2Isabelle
  imports Complex_Main "HOL-Library.Word" "HOL-Library.Sublist"
begin

unbundle bit_operations_syntax

section \<open>JavaScript values used by the soil analysis engine\<close>

text \<open>
  The engine is \<^verbatim>\<open>src/workers/soil.js\<close>; the change detector is the method
  \<^verbatim>\<open>generateGeometryHash\<close> of the front-end component. JavaScript numbers are
  modelled as reals; sums, differences and quotients are exact, and the double product is a
  parameter where a result depends on its rounding. Strings are modelled as
  \<^typ>\<open>string\<close>, \<^verbatim>\<open>null\<close> and \<^verbatim>\<open>undefined\<close> as \<^const>\<open>None\<close>, and a
  thrown exception as the left injection of a sum. Console logging (the \<^verbatim>\<open>debug\<close>
  flag) has no effect on any result and is left out.
\<close>

datatype js_error =
  JsError (err_name: string) (err_message: string)
| JsUndefined

type_synonym number = real

text \<open>\<^verbatim>\<open>Math.round\<close>: the nearest integer, halves towards plus infinity.\<close>

definition Math_round :: "number \<Rightarrow> int" where
  "Math_round x = \<lfloor>x + 1 / 2\<rfloor>"

text \<open>Decimal rendering of a non-negative integer, as template literals and
  \<^verbatim>\<open>toString\<close> produce it.\<close>

definition digit_char :: "nat \<Rightarrow> char" where
  "digit_char d = ''0123456789'' ! d"

function show_nat :: "nat \<Rightarrow> string" where
  "show_nat n = (if n < 10 then [digit_char n] else show_nat (n div 10) @ [digit_char (n mod 10)])"
  by pat_completeness auto
termination
  by (relation "measure id") auto

definition show_int :: "int \<Rightarrow> string" where
  "show_int i = (if i < 0 then CHR ''-'' # show_nat (nat (- i)) else show_nat (nat i))"

text \<open>\<^verbatim>\<open>String.prototype.trim\<close> on the ASCII white space characters, and
  \<^verbatim>\<open>String.prototype.includes\<close>.\<close>

definition is_space :: "char \<Rightarrow> bool" where
  "is_space c = (c \<in> set [CHR '' '', CHR 0x09, CHR 0x0A, CHR 0x0B, CHR 0x0C, CHR 0x0D])"

definition trim :: "string \<Rightarrow> string" where
  "trim s = rev (dropWhile is_space (rev (dropWhile is_space s)))"

fun includes_str :: "string \<Rightarrow> string \<Rightarrow> bool" where
  "includes_str [] needle = (needle = [])"
| "includes_str (c # cs) needle = (prefix needle (c # cs) \<or> includes_str cs needle)"

section \<open>The query executor\<close>

text \<open>A cell of the service's table is a string or \<^verbatim>\<open>null\<close>; a row is an array of cells.\<close>

datatype cell = CNull | CStr string

type_synonym row = "cell list"

text \<open>The parsed response body \<^verbatim>\<open>data\<close>: \<^verbatim>\<open>null\<close>, or a value whose
  \<^verbatim>\<open>Table\<close> property is an array of rows or is missing.\<close>

datatype sda_data = DataNull | DataObject "row list option"

record response =
  resp_ok :: bool
  resp_status :: nat
  resp_statusText :: string
  resp_text :: "js_error + string"
  resp_content_type :: "string option"
  resp_json :: "js_error + sda_data"

datatype fetch_outcome = Rejects js_error | Resolves response

text \<open>The remote endpoint: what the \<open>n\<close>-th request ever sent answers to a query text.\<close>

type_synonym network = "nat \<Rightarrow> string \<Rightarrow> fetch_outcome"

record progress =
  pg_current :: int
  pg_total :: int
  pg_message :: string
  pg_percentage :: int

datatype event = Fetched string | Waited nat | Progressed progress

record world =
  sent :: nat
  events :: "event list"

definition MAX_RETRIES :: nat where
  "MAX_RETRIES = 3"

definition ACRES_PER_SQM :: number where
  "ACRES_PER_SQM = 0.000247105381"

text \<open>
  \<^verbatim>\<open>sqmToAcres\<close> multiplies twice before it rounds, and the engine rounds each product
  to a double (the factor 0.000247105381 is not a double itself), which can move the product
  across a half and so change the rounded integer. The double product is therefore a parameter
  \<open>product\<close> of the model. The division by a million that follows \<^verbatim>\<open>Math.round\<close> is exact
  in the model: the engine gives the double nearest to that quotient.
\<close>

definition sqmToAcres :: "(number \<Rightarrow> number \<Rightarrow> number) \<Rightarrow> number \<Rightarrow> number" where
  "sqmToAcres product areaSqm =
     of_int (Math_round (product (product areaSqm ACRES_PER_SQM) 1000000)) / 1000000"

text \<open>The body of the \<^verbatim>\<open>try\<close> block of one attempt, after \<^verbatim>\<open>fetch\<close> has settled.\<close>

definition read_response :: "response \<Rightarrow> js_error + row list" where
  "read_response r =
     (if \<not> resp_ok r then
        (let errorText = (case resp_text r of
                            Inr t \<Rightarrow> t
                          | Inl e \<Rightarrow> ''HTTP '' @ show_nat (resp_status r) @ '' '' @ resp_statusText r)
         in Inl (JsError ''Error'' (''SDA API Error '' @ show_nat (resp_status r) @ '': '' @ errorText)))
      else if (case resp_content_type r of None \<Rightarrow> True
               | Some ct \<Rightarrow> ct = [] \<or> \<not> includes_str ct ''application/json'') then
        (case resp_text r of
           Inl e \<Rightarrow> Inl e
         | Inr textResponse \<Rightarrow>
             Inl (JsError ''Error'' (''SDA API returned non-JSON response: '' @ take 200 textResponse)))
      else
        (case resp_json r of
           Inl e \<Rightarrow> Inl e
         | Inr DataNull \<Rightarrow> Inl (JsError ''TypeError'' ''Cannot read properties of null (reading Table)'')
         | Inr (DataObject None) \<Rightarrow> Inr []
         | Inr (DataObject (Some results)) \<Rightarrow> Inr results))"

definition try_attempt :: "fetch_outcome \<Rightarrow> js_error + row list" where
  "try_attempt out = (case out of Rejects e \<Rightarrow> Inl e | Resolves r \<Rightarrow> read_response r)"

definition backoff_delay :: "nat \<Rightarrow> nat" where
  "backoff_delay attempt = min (1000 * 2 ^ attempt) 10000"

text \<open>The \<^verbatim>\<open>for\<close> loop of \<^verbatim>\<open>executeSDQuery\<close>, from attempt number \<open>attempt\<close>
  with \<open>lastError\<close> as it stands. Reading \<^verbatim>\<open>error.name\<close> of a rejection value
  \<^verbatim>\<open>undefined\<close> raises a TypeError out of the \<^verbatim>\<open>catch\<close> block.\<close>

function executeSDQuery_loop ::
  "network \<Rightarrow> string \<Rightarrow> nat \<Rightarrow> nat \<Rightarrow> js_error \<Rightarrow> world \<Rightarrow> (js_error + row list) \<times> world" where
  "executeSDQuery_loop net body retries attempt lastError w =
     (if attempt < retries then
        (let out = net (sent w) body;
             w1 = w\<lparr>sent := sent w + 1, events := events w @ [Fetched body]\<rparr>
         in case try_attempt out of
              Inr results \<Rightarrow> (Inr results, w1)
            | Inl JsUndefined \<Rightarrow>
                (Inl (JsError ''TypeError'' ''Cannot read properties of undefined (reading name)''), w1)
            | Inl (JsError nm msg) \<Rightarrow>
                if nm = ''AbortError'' then
                  (Inl (JsError ''Error'' ''Query timeout - try reducing scope or increasing timeout''), w1)
                else
                  executeSDQuery_loop net body retries (attempt + 1) (JsError nm msg)
                    (if attempt < retries - 1
                     then w1\<lparr>events := events w1 @ [Waited (backoff_delay attempt)]\<rparr>
                     else w1))
      else (Inl lastError, w))"
  by pat_completeness auto
termination
  by (relation "measure (\<lambda>(net, body, retries, attempt, lastError, w). retries - attempt)") auto

declare executeSDQuery_loop.simps [simp del]

definition executeSDQuery :: "network \<Rightarrow> string \<Rightarrow> nat \<Rightarrow> world \<Rightarrow> (js_error + row list) \<times> world" where
  "executeSDQuery net query retries w = executeSDQuery_loop net (trim query) retries 0 JsUndefined w"

text \<open>The effects expected of a run in which every attempt fails, from attempt number
  \<open>attempt\<close> on: one request per attempt, and a pause after every attempt but the last.\<close>

definition retry_schedule :: "string \<Rightarrow> nat \<Rightarrow> nat \<Rightarrow> event list" where
  "retry_schedule body retries attempt =
     concat (map (\<lambda>k. Fetched body # (if k < retries - 1 then [Waited (backoff_delay k)] else []))
                 [attempt..<retries])"

section \<open>GeoJSON values and the geometry libraries\<close>

text \<open>A coordinate tree is a number or an array of coordinate trees; a geometry object has
  an optional \<^verbatim>\<open>type\<close> and optional \<^verbatim>\<open>coordinates\<close>. A value of type \<open>geom\<close> is a
  geometry object or \<^verbatim>\<open>null\<close>.\<close>

datatype coords = Num number | Arr "coords list"

record geometry =
  geom_type :: "string option"
  geom_coordinates :: "coords option"

type_synonym geom = "geometry option"

datatype json =
  JNull | JBool bool | JNum number | JStr string | JArr "json list" | JObj "(string \<times> json) list"

record feature =
  feat_type :: "string option"
  feat_properties :: "json option"
  feat_geometry :: geom

record geojson =
  gj_type :: "string option"
  gj_features :: "feature list option"
  gj_geometry :: geom
  gj_coordinates :: "coords option"

text \<open>JavaScript truthiness of a \<^verbatim>\<open>coordinates\<close> value and of a string.\<close>

definition truthy_coords :: "coords option \<Rightarrow> bool" where
  "truthy_coords c = (case c of None \<Rightarrow> False | Some (Num x) \<Rightarrow> x \<noteq> 0 | Some (Arr xs) \<Rightarrow> True)"

definition truthy_str :: "string option \<Rightarrow> bool" where
  "truthy_str s = (case s of None \<Rightarrow> False | Some t \<Rightarrow> t \<noteq> [])"

text \<open>
  The third-party libraries (turf, polygon-clipping, wellknown) are parameters of the model.
  Each call may throw. The turf functions are given the geometry of the feature they are
  called on; \<^verbatim>\<open>turf.intersect\<close> answers the geometry of the feature it returns
  (\<^const>\<open>None\<close> when it returns \<^verbatim>\<open>null\<close> or a feature without geometry), and
  \<^verbatim>\<open>turf.union\<close> answers \<^const>\<open>None\<close> for \<^verbatim>\<open>null\<close> and otherwise the geometry of
  the feature it returns. The last field is the engine's product of two doubles.
\<close>

record geo_lib =
  turf_intersect :: "geom \<Rightarrow> geom \<Rightarrow> js_error + geom"
  turf_area :: "geom \<Rightarrow> js_error + number"
  turf_booleanWithin :: "geom \<Rightarrow> geom \<Rightarrow> js_error + bool"
  turf_booleanIntersects :: "geom \<Rightarrow> geom \<Rightarrow> js_error + bool"
  turf_union :: "geom \<Rightarrow> geom \<Rightarrow> js_error + geom option"
  polygonClipping_intersection :: "coords list \<Rightarrow> coords list \<Rightarrow> js_error + coords list"
  wkx_stringify :: "geometry \<Rightarrow> js_error + string option"
  wkx_parse :: "cell option \<Rightarrow> js_error + geom"
  ieee_times :: "number \<Rightarrow> number \<Rightarrow> number"

section \<open>The robust intersection calculator\<close>

record robust_result =
  rr_geometry :: geom
  rr_area :: number
  rr_method :: string

text \<open>What one of the first two \<^verbatim>\<open>try\<close> blocks does: it returns from the function, or
  control falls through to the next method.\<close>

datatype flow = Return "robust_result option" | FallThrough

definition getPolygonCoordinates :: "geom \<Rightarrow> coords option" where
  "getPolygonCoordinates g =
     (case g of
        None \<Rightarrow> None
      | Some geometry \<Rightarrow>
          if \<not> truthy_coords (geom_coordinates geometry) then None
          else if geom_type geometry = Some ''Polygon'' then geom_coordinates geometry
          else if geom_type geometry = Some ''MultiPolygon'' then
            (case geom_coordinates geometry of
               Some (Arr (first # others)) \<Rightarrow> Some first
             | _ \<Rightarrow> None)
          else None)"

text \<open>Method 1: \<^verbatim>\<open>turf.intersect\<close>.\<close>

definition turf_intersect_method :: "geo_lib \<Rightarrow> geom \<Rightarrow> geom \<Rightarrow> flow" where
  "turf_intersect_method L soilGeometry studyGeometry =
     (case turf_intersect L soilGeometry studyGeometry of
        Inl turfError \<Rightarrow> FallThrough
      | Inr None \<Rightarrow> FallThrough
      | Inr (Some g) \<Rightarrow>
          (case turf_area L (Some g) of
             Inl turfError \<Rightarrow> FallThrough
           | Inr area \<Rightarrow>
               if area \<ge> 0.1 then
                 Return (Some \<lparr>rr_geometry = Some g, rr_area = area, rr_method = ''turf_intersect''\<rparr>)
               else FallThrough))"

text \<open>Method 2: the polygon-clipping library on the coordinate arrays.\<close>

definition polygon_clipping_method :: "geo_lib \<Rightarrow> geom \<Rightarrow> geom \<Rightarrow> flow" where
  "polygon_clipping_method L soilGeometry studyGeometry =
     (let soilCoords = getPolygonCoordinates soilGeometry;
          studyCoords = getPolygonCoordinates studyGeometry
      in case (soilCoords, studyCoords) of
           (Some sc, Some tc) \<Rightarrow>
             if \<not> truthy_coords soilCoords \<or> \<not> truthy_coords studyCoords then Return None
             else
               (case polygonClipping_intersection L [sc] [tc] of
                  Inl error \<Rightarrow> FallThrough
                | Inr intersectionResult \<Rightarrow>
                    if length intersectionResult = 0 then Return None
                    else
                      (let intersectionGeometry =
                             (if length intersectionResult = 1
                              then \<lparr>geom_type = Some ''Polygon'',
                                    geom_coordinates = Some (hd intersectionResult)\<rparr>
                              else \<lparr>geom_type = Some ''MultiPolygon'',
                                    geom_coordinates = Some (Arr intersectionResult)\<rparr>)
                       in case turf_area L (Some intersectionGeometry) of
                            Inl error \<Rightarrow> FallThrough
                          | Inr area \<Rightarrow>
                              if area \<ge> 0.1 then
                                Return (Some \<lparr>rr_geometry = Some intersectionGeometry, rr_area = area,
                                              rr_method = ''polygon_clipping''\<rparr>)
                              else FallThrough))
         | _ \<Rightarrow> Return None)"

text \<open>Method 3: the containment checks.\<close>

definition containment_method :: "geo_lib \<Rightarrow> geom \<Rightarrow> geom \<Rightarrow> robust_result option" where
  "containment_method L soilGeometry studyGeometry =
     (case turf_booleanWithin L soilGeometry studyGeometry of
        Inl containmentError \<Rightarrow> None
      | Inr True \<Rightarrow>
          (case turf_area L soilGeometry of
             Inl containmentError \<Rightarrow> None
           | Inr area \<Rightarrow>
               Some \<lparr>rr_geometry = soilGeometry, rr_area = area, rr_method = ''soil_within_study''\<rparr>)
      | Inr False \<Rightarrow>
          (case turf_booleanWithin L studyGeometry soilGeometry of
             Inl containmentError \<Rightarrow> None
           | Inr True \<Rightarrow>
               (case turf_area L studyGeometry of
                  Inl containmentError \<Rightarrow> None
                | Inr area \<Rightarrow>
                    Some \<lparr>rr_geometry = studyGeometry, rr_area = area,
                          rr_method = ''study_within_soil''\<rparr>)
           | Inr False \<Rightarrow> None))"

definition calculateRobustIntersection :: "geo_lib \<Rightarrow> geom \<Rightarrow> geom \<Rightarrow> robust_result option" where
  "calculateRobustIntersection L soilGeometry studyGeometry =
     (case turf_intersect_method L soilGeometry studyGeometry of
        Return r \<Rightarrow> r
      | FallThrough \<Rightarrow>
          (case polygon_clipping_method L soilGeometry studyGeometry of
             Return r \<Rightarrow> r
           | FallThrough \<Rightarrow> containment_method L soilGeometry studyGeometry))"

section \<open>The geometry normalizer\<close>

text \<open>A \<^verbatim>\<open>catch\<close> block that throws \<^verbatim>\<open>new Error(prefix + error.message)\<close>; reading
  \<^verbatim>\<open>message\<close> of \<^verbatim>\<open>undefined\<close> raises a TypeError instead.\<close>

definition rethrow :: "string \<Rightarrow> js_error \<Rightarrow> js_error" where
  "rethrow pre e =
     (case e of
        JsError nm msg \<Rightarrow> JsError ''Error'' (pre @ msg)
      | JsUndefined \<Rightarrow>
          JsError ''TypeError'' ''Cannot read properties of undefined (reading message)'')"

text \<open>The loop that unions the features after the first into the running union; a failed
  or empty union leaves the running union as it is.\<close>

fun union_features :: "geo_lib \<Rightarrow> geom \<Rightarrow> feature list \<Rightarrow> geom" where
  "union_features L running [] = running"
| "union_features L running (f # fs) =
     (case turf_union L running (feat_geometry f) of
        Inr (Some unionResult) \<Rightarrow> union_features L unionResult fs
      | Inr None \<Rightarrow> union_features L running fs
      | Inl unionError \<Rightarrow> union_features L running fs)"

definition extract_geometry :: "geo_lib \<Rightarrow> geojson \<Rightarrow> js_error + geom" where
  "extract_geometry L geojson =
     (if gj_type geojson = Some ''FeatureCollection'' \<and>
         (case gj_features geojson of None \<Rightarrow> False | Some fs \<Rightarrow> length fs > 0) then
        (case gj_features geojson of
           Some [f] \<Rightarrow> Inr (feat_geometry f)
         | Some (f # fs) \<Rightarrow> Inr (union_features L (feat_geometry f) fs)
         | _ \<Rightarrow> Inr None)
      else if gj_type geojson = Some ''Feature'' then Inr (gj_geometry geojson)
      else if gj_type geojson = Some ''Polygon'' \<or> gj_type geojson = Some ''MultiPolygon'' then
        Inr (Some \<lparr>geom_type = gj_type geojson, geom_coordinates = gj_coordinates geojson\<rparr>)
      else
        Inl (JsError ''Error'' (''Unsupported GeoJSON type: '' @
               (case gj_type geojson of None \<Rightarrow> ''undefined'' | Some t \<Rightarrow> t))))"

text \<open>\<^verbatim>\<open>extractAndConvertGeometry\<close> answers \<^const>\<open>None\<close> for its \<^verbatim>\<open>null\<close> return.\<close>

definition extractAndConvertGeometry ::
  "geo_lib \<Rightarrow> geojson option \<Rightarrow> js_error + (geometry \<times> string) option" where
  "extractAndConvertGeometry L gj =
     (case gj of
        None \<Rightarrow> Inr None
      | Some geojson \<Rightarrow>
          (case
             (case extract_geometry L geojson of
                Inl e \<Rightarrow> Inl e
              | Inr None \<Rightarrow> Inl (JsError ''Error'' ''No valid geometry found after processing'')
              | Inr (Some geometry) \<Rightarrow>
                  if \<not> truthy_str (geom_type geometry) \<or> \<not> truthy_coords (geom_coordinates geometry)
                  then Inl (JsError ''Error'' ''Invalid geometry: missing type or coordinates'')
                  else
                    (case wkx_stringify L geometry of
                       Inl e \<Rightarrow> Inl e
                     | Inr wktString \<Rightarrow>
                         if \<not> truthy_str wktString
                         then Inl (JsError ''Error'' ''WKT conversion resulted in empty string'')
                         else Inr (Some (geometry, the wktString))))
           of
             Inl error \<Rightarrow> Inl (rethrow ''Geometry processing failed: '' error)
           | Inr result \<Rightarrow> Inr result))"

section \<open>Map unit keys and soil properties\<close>

definition nth_opt :: "'a list \<Rightarrow> nat \<Rightarrow> 'a option" where
  "nth_opt xs i = (if i < length xs then Some (xs ! i) else None)"

text \<open>\<^verbatim>\<open>String(v)\<close> of a cell, of \<^verbatim>\<open>null\<close> and of \<^verbatim>\<open>undefined\<close>; the same text is
  the property key \<^verbatim>\<open>v\<close> stands for.\<close>

definition String_of :: "cell option \<Rightarrow> string" where
  "String_of v = (case v of None \<Rightarrow> ''undefined'' | Some CNull \<Rightarrow> ''null'' | Some (CStr s) \<Rightarrow> s)"

definition quote :: "string \<Rightarrow> string" where
  "quote k = [CHR 0x27] @ k @ [CHR 0x27]"

fun join :: "string \<Rightarrow> string list \<Rightarrow> string" where
  "join sep [] = []"
| "join sep [x] = x"
| "join sep (x # y # ys) = x @ sep @ join sep (y # ys)"

definition mukeyQuery :: "string \<Rightarrow> string" where
  "mukeyQuery wktString =
     ''SELECT mukey FROM SDA_Get_Mukey_from_intersection_with_WktWgs84('' @ quote wktString @ '')''"

definition getSoilMapUnitKeys :: "network \<Rightarrow> string \<Rightarrow> world \<Rightarrow> (js_error + string list) \<times> world" where
  "getSoilMapUnitKeys net wktString w =
     (case executeSDQuery net (mukeyQuery wktString) MAX_RETRIES w of
        (Inl e, w1) \<Rightarrow> (Inl e, w1)
      | (Inr mukeyData, w1) \<Rightarrow>
          (Inr (filter (\<lambda>key. key \<noteq> [] \<and> trim key \<noteq> [])
                  (map (\<lambda>row. String_of (nth_opt row 0)) mukeyData)), w1))"

record soil_props =
  sp_mukey :: "cell option"
  sp_muname :: "cell option"
  sp_taxorder :: "cell option"
  sp_taxsuborder :: "cell option"
  sp_drainagecl :: "cell option"
  sp_taxreaction :: "cell option"
  sp_taxclname :: "cell option"
  sp_ph1to1h2o_r :: "cell option"
  sp_om_r :: "cell option"
  sp_sandtotal_r :: "cell option"
  sp_silttotal_r :: "cell option"
  sp_claytotal_r :: "cell option"
  sp_texture :: "cell option"

definition props_of_row :: "row \<Rightarrow> soil_props" where
  "props_of_row r =
     \<lparr>sp_mukey = nth_opt r 0, sp_muname = nth_opt r 1, sp_taxorder = nth_opt r 2,
      sp_taxsuborder = nth_opt r 3, sp_drainagecl = nth_opt r 4, sp_taxreaction = nth_opt r 5,
      sp_taxclname = nth_opt r 6, sp_ph1to1h2o_r = nth_opt r 7, sp_om_r = nth_opt r 8,
      sp_sandtotal_r = nth_opt r 9, sp_silttotal_r = nth_opt r 10, sp_claytotal_r = nth_opt r 11,
      sp_texture = nth_opt r 12\<rparr>"

text \<open>
  \<^verbatim>\<open>soilProperties\<close> is a plain object used as a dictionary. Its own properties are the
  records stored under the keys; an assignment under the key \<^verbatim>\<open>__proto__\<close> stores nothing
  but installs the record as the prototype of the object, between it and
  \<^verbatim>\<open>Object.prototype\<close>.
\<close>

record soil_table =
  st_own :: "string \<rightharpoonup> soil_props"
  st_proto :: "soil_props option"

definition empty_table :: soil_table where
  "empty_table = \<lparr>st_own = Map.empty, st_proto = None\<rparr>"

definition table_assign :: "soil_table \<Rightarrow> string \<Rightarrow> soil_props \<Rightarrow> soil_table" where
  "table_assign t k p =
     (if k = ''__proto__'' then t\<lparr>st_proto := Some p\<rparr> else t\<lparr>st_own := (st_own t)(k \<mapsto> p)\<rparr>)"

text \<open>The names every plain object inherits from \<^verbatim>\<open>Object.prototype\<close>, and the names of
  the entries of a property record.\<close>

definition Object_prototype_names :: "string list" where
  "Object_prototype_names =
     [''constructor'', ''__defineGetter__'', ''__defineSetter__'', ''hasOwnProperty'',
      ''__lookupGetter__'', ''__lookupSetter__'', ''isPrototypeOf'', ''propertyIsEnumerable'',
      ''toString'', ''valueOf'', ''__proto__'', ''toLocaleString'']"

definition soil_field_names :: "string list" where
  "soil_field_names =
     [''mukey'', ''muname'', ''taxorder'', ''taxsuborder'', ''drainagecl'', ''taxreaction'',
      ''taxclname'', ''ph1to1h2o_r'', ''om_r'', ''sandtotal_r'', ''silttotal_r'', ''claytotal_r'',
      ''texture'']"

definition field_of :: "soil_props \<Rightarrow> string \<Rightarrow> cell option option" where
  "field_of p k =
     (if k = ''mukey'' then Some (sp_mukey p)
      else if k = ''muname'' then Some (sp_muname p)
      else if k = ''taxorder'' then Some (sp_taxorder p)
      else if k = ''taxsuborder'' then Some (sp_taxsuborder p)
      else if k = ''drainagecl'' then Some (sp_drainagecl p)
      else if k = ''taxreaction'' then Some (sp_taxreaction p)
      else if k = ''taxclname'' then Some (sp_taxclname p)
      else if k = ''ph1to1h2o_r'' then Some (sp_ph1to1h2o_r p)
      else if k = ''om_r'' then Some (sp_om_r p)
      else if k = ''sandtotal_r'' then Some (sp_sandtotal_r p)
      else if k = ''silttotal_r'' then Some (sp_silttotal_r p)
      else if k = ''claytotal_r'' then Some (sp_claytotal_r p)
      else if k = ''texture'' then Some (sp_texture p)
      else None)"

text \<open>
  What \<^verbatim>\<open>soilProperties[k]\<close> reads: a property record (an own property, or the installed
  prototype read through \<^verbatim>\<open>__proto__\<close>), an entry of the installed prototype, a member of
  \<^verbatim>\<open>Object.prototype\<close> (a function, or that object itself), or \<^verbatim>\<open>undefined\<close>.
\<close>

datatype member = Rec soil_props | Entry "cell option" | Builtin | Absent

definition table_lookup :: "soil_table \<Rightarrow> string \<Rightarrow> member" where
  "table_lookup t k =
     (case st_own t k of
        Some p \<Rightarrow> Rec p
      | None \<Rightarrow>
          if k = ''__proto__'' then (case st_proto t of Some p \<Rightarrow> Rec p | None \<Rightarrow> Builtin)
          else
            (case (case st_proto t of None \<Rightarrow> None | Some p \<Rightarrow> field_of p k) of
               Some c \<Rightarrow> Entry c
             | None \<Rightarrow> if k \<in> set Object_prototype_names then Builtin else Absent))"

text \<open>Truthiness of what was read, and the record that spreading it into an object literal
  contributes: a function contributes nothing and a string only its characters under their
  indices.\<close>

definition truthy_member :: "member \<Rightarrow> bool" where
  "truthy_member m =
     (case m of
        Rec p \<Rightarrow> True
      | Entry c \<Rightarrow> (case c of Some (CStr s) \<Rightarrow> s \<noteq> [] | _ \<Rightarrow> False)
      | Builtin \<Rightarrow> True
      | Absent \<Rightarrow> False)"

definition spread_record :: "member \<Rightarrow> soil_props option" where
  "spread_record m = (case m of Rec p \<Rightarrow> Some p | _ \<Rightarrow> None)"

text \<open>The text of the ranked-attribute query. Runs of white space of the template are
  written as one blank and its SQL comments are left out; the key list is spliced in as the
  source does.\<close>

definition soilPropertiesQuery :: "string list \<Rightarrow> string" where
  "soilPropertiesQuery mukeys =
     ''WITH RankedSoils AS ( SELECT m.mukey, m.muname, c.taxorder, c.taxsuborder, c.drainagecl, '' @
     ''c.taxreaction, c.taxclname, h.ph1to1h2o_r, h.om_r, h.sandtotal_r, h.silttotal_r, '' @
     ''h.claytotal_r, tg.texture, ROW_NUMBER() OVER ( PARTITION BY m.mukey '' @
     ''ORDER BY c.comppct_r DESC, h.hzdept_r ASC ) AS soil_rank FROM mapunit m '' @
     ''INNER JOIN component c ON m.mukey = c.mukey INNER JOIN chorizon h ON h.cokey = c.cokey '' @
     ''INNER JOIN chtexturegrp tg ON tg.chkey = h.chkey WHERE m.mukey IN ('' @
     join '','' (map quote mukeys) @
     '') AND c.majcompflag = '' @ quote ''Yes'' @
     '' ) SELECT mukey, muname, taxorder, taxsuborder, drainagecl, taxreaction, taxclname, '' @
     ''ph1to1h2o_r, om_r, sandtotal_r, silttotal_r, claytotal_r, texture FROM RankedSoils '' @
     ''WHERE soil_rank = 1''"

definition getSoilProperties ::
  "network \<Rightarrow> string list \<Rightarrow> world \<Rightarrow> (js_error + soil_table) \<times> world" where
  "getSoilProperties net mukeys w =
     (if length mukeys = 0 then (Inr empty_table, w)
      else
        (case executeSDQuery net (soilPropertiesQuery mukeys) MAX_RETRIES w of
           (Inl e, w1) \<Rightarrow> (Inl e, w1)
         | (Inr soilData, w1) \<Rightarrow>
             (Inr (foldl (\<lambda>soilProperties r.
                            table_assign soilProperties (String_of (nth_opt r 0)) (props_of_row r))
                         empty_table soilData), w1)))"

section \<open>The intersection pipeline\<close>

text \<open>The properties object of an intersection feature. The spread of
  \<^verbatim>\<open>soilProperties[mukey]\<close> comes last: when it reads a property record, the
  \<^verbatim>\<open>mukey\<close> entry of the record replaces the key written first, and none of its other
  entries has the name of one of the four computed entries.\<close>

record intersection_feature =
  if_mukey :: "cell option"
  if_area_acres :: number
  if_area_square_meters :: number
  if_intersection_method :: string
  if_soil :: "soil_props option"
  if_geometry :: geom

record soil_unit =
  su_mukey :: string
  su_area_acres :: number
  su_intersectionFeatures :: "intersection_feature list"

text \<open>The texts of the queries sent, in the order of sending.\<close>

definition fetched :: "event list \<Rightarrow> string list" where
  "fetched es = [q. Fetched q \<leftarrow> es]"

definition emit :: "progress \<Rightarrow> world \<Rightarrow> world" where
  "emit p w = w\<lparr>events := events w @ [Progressed p]\<rparr>"

definition polygonQuery :: "string \<Rightarrow> string" where
  "polygonQuery mukey = ''SELECT * FROM SDA_Get_MupolygonWktWgs84_from_Mukey('' @ mukey @ '')''"

text \<open>The inner \<^verbatim>\<open>try\<close> block of one soil polygon: the geometry and the method of the
  intersection, or \<^const>\<open>None\<close> when \<^verbatim>\<open>intersection\<close> stays \<^verbatim>\<open>null\<close>.\<close>

definition intersect_polygon :: "geo_lib \<Rightarrow> geom \<Rightarrow> geom \<Rightarrow> (geom \<times> string) option" where
  "intersect_polygon L soilGeometry studyAreaGeometry =
     (case turf_booleanIntersects L soilGeometry studyAreaGeometry of
        Inl geometricError \<Rightarrow> None
      | Inr intersects \<Rightarrow>
          if intersects then
            (case calculateRobustIntersection L soilGeometry studyAreaGeometry of
               None \<Rightarrow> None
             | Some intersectionResult \<Rightarrow>
                 Some (rr_geometry intersectionResult, rr_method intersectionResult))
          else None)"

text \<open>The body of the loop over the polygon rows of one map unit: the feature it pushes,
  if any.\<close>

definition process_polygon ::
  "geo_lib \<Rightarrow> string \<Rightarrow> geom \<Rightarrow> soil_table \<Rightarrow> row \<Rightarrow> intersection_feature option" where
  "process_polygon L mukey studyAreaGeometry soilProperties r =
     (case wkx_parse L (nth_opt r 0) of
        Inl polygonError \<Rightarrow> None
      | Inr soilGeometry \<Rightarrow>
          (case intersect_polygon L soilGeometry studyAreaGeometry of
             None \<Rightarrow> None
           | Some (None, intersectionMethod) \<Rightarrow> None
           | Some (Some g, intersectionMethod) \<Rightarrow>
               (case turf_area L (Some g) of
                  Inl polygonError \<Rightarrow> None
                | Inr areaSquareMeters \<Rightarrow>
                    (let areaAcres = sqmToAcres (ieee_times L) areaSquareMeters
                     in if areaAcres > 0.0001 then
                          Some \<lparr>if_mukey =
                                  (case spread_record (table_lookup soilProperties mukey) of
                                     None \<Rightarrow> Some (CStr mukey)
                                   | Some p \<Rightarrow> sp_mukey p),
                                if_area_acres = areaAcres,
                                if_area_square_meters = areaSquareMeters,
                                if_intersection_method = intersectionMethod,
                                if_soil = spread_record (table_lookup soilProperties mukey),
                                if_geometry = Some g\<rparr>
                        else None))))"

fun polygon_loop ::
  "geo_lib \<Rightarrow> string \<Rightarrow> geom \<Rightarrow> soil_table \<Rightarrow> row list \<Rightarrow>
   number \<Rightarrow> intersection_feature list \<Rightarrow> number \<times> intersection_feature list" where
  "polygon_loop L mukey study soilProperties [] totalIntersectionArea intersectionFeatures =
     (totalIntersectionArea, intersectionFeatures)"
| "polygon_loop L mukey study soilProperties (r # rs) totalIntersectionArea intersectionFeatures =
     (case process_polygon L mukey study soilProperties r of
        None \<Rightarrow>
          polygon_loop L mukey study soilProperties rs totalIntersectionArea intersectionFeatures
      | Some f \<Rightarrow>
          polygon_loop L mukey study soilProperties rs
            (totalIntersectionArea + if_area_acres f) (intersectionFeatures @ [f]))"

text \<open>The loop over the map unit keys; \<open>n\<close> is \<^verbatim>\<open>mukeys.length\<close>, which is not zero
  when the pipeline calls it. The percentages of the progress reports are computed exactly.\<close>

fun mukey_loop ::
  "network \<Rightarrow> geo_lib \<Rightarrow> nat \<Rightarrow> geom \<Rightarrow> soil_table \<Rightarrow>
   (progress \<Rightarrow> world \<Rightarrow> world) option \<Rightarrow> string list \<Rightarrow> soil_unit list \<Rightarrow> nat \<Rightarrow> world \<Rightarrow>
   (soil_unit list \<times> nat) \<times> world" where
  "mukey_loop net L n study soilProperties progressCallback [] results processed w =
     ((results, processed), w)"
| "mukey_loop net L n study soilProperties progressCallback (mukey # rest) results processed w =
     (let w1 = (case progressCallback of
                  None \<Rightarrow> w
                | Some cb \<Rightarrow>
                    cb \<lparr>pg_current = int processed, pg_total = int n,
                        pg_message = ''Processing soil unit '' @ mukey @ ''...'',
                        pg_percentage = Math_round (real processed / real n * 100)\<rparr> w)
      in case executeSDQuery net (polygonQuery mukey) MAX_RETRIES w1 of
           (Inl error, w2) \<Rightarrow>
             mukey_loop net L n study soilProperties progressCallback rest results (processed + 1) w2
         | (Inr polygonData, w2) \<Rightarrow>
             if length polygonData = 0 then
               mukey_loop net L n study soilProperties progressCallback rest results (processed + 1) w2
             else
               (case polygon_loop L mukey study soilProperties polygonData 0 [] of
                  (totalIntersectionArea, intersectionFeatures) \<Rightarrow>
                    mukey_loop net L n study soilProperties progressCallback rest
                      (if totalIntersectionArea > 0 \<and>
                          truthy_member (table_lookup soilProperties mukey) then
                         results @ [\<lparr>su_mukey = mukey, su_area_acres = totalIntersectionArea,
                                     su_intersectionFeatures = intersectionFeatures\<rparr>]
                       else results)
                      (processed + 1) w2))"

definition calculateSoilIntersections ::
  "network \<Rightarrow> geo_lib \<Rightarrow> string list \<Rightarrow> string \<Rightarrow> geom \<Rightarrow> soil_table \<Rightarrow>
   (progress \<Rightarrow> world \<Rightarrow> world) option \<Rightarrow> world \<Rightarrow> soil_unit list \<times> world" where
  "calculateSoilIntersections net L mukeys studyAreaWkt studyAreaGeometry soilProperties
       progressCallback w =
     (case mukey_loop net L (length mukeys) studyAreaGeometry soilProperties progressCallback
             mukeys [] 0 w of
        ((results, processed), w1) \<Rightarrow>
          (sort_key (\<lambda>unit. - su_area_acres unit) results,
           (case progressCallback of
              None \<Rightarrow> w1
            | Some cb \<Rightarrow>
                cb \<lparr>pg_current = int processed, pg_total = int (length mukeys),
                    pg_message = ''Spatial analysis complete'', pg_percentage = 100\<rparr> w1)))"

section \<open>The main function\<close>

record result_properties =
  total_area_acres :: number
  mapunit_count :: nat
  study_area :: geojson

record analysis_result =
  ar_type :: string
  ar_features :: "intersection_feature list"
  ar_properties :: "result_properties option"

text \<open>A call of the caller's progress callback, when there is one.\<close>

definition report :: "bool \<Rightarrow> int \<Rightarrow> string \<Rightarrow> world \<Rightarrow> world" where
  "report has_callback pct msg w =
     (if has_callback
      then emit \<lparr>pg_current = pct, pg_total = 100, pg_message = msg, pg_percentage = pct\<rparr> w
      else w)"

text \<open>The callback handed to \<^verbatim>\<open>calculateSoilIntersections\<close>, which maps the progress of the
  loop into the range from 60 to 95.\<close>

definition sub_progress :: "bool \<Rightarrow> progress \<Rightarrow> world \<Rightarrow> world" where
  "sub_progress has_callback subProgress w =
     report has_callback
       (Math_round (60 + real_of_int (pg_current subProgress) / real_of_int (pg_total subProgress) * 35))
       (pg_message subProgress) w"

text \<open>The key list after the cap; an absent \<^verbatim>\<open>maxResults\<close> takes the default of the
  parameter list.\<close>

definition limit_mukeys :: "int option \<Rightarrow> string list \<Rightarrow> string list" where
  "limit_mukeys maxResults mukeys =
     (let maxResults = (case maxResults of None \<Rightarrow> 100 | Some m \<Rightarrow> m)
      in if maxResults > 0 then take (nat maxResults) mukeys else mukeys)"

text \<open>The result object built at the end of a run: the features of all units in one list,
  the sum of the units' areas, the number of units and the input as it was given.\<close>

definition assemble_result :: "geojson \<Rightarrow> soil_unit list \<Rightarrow> analysis_result" where
  "assemble_result geojson results =
     \<lparr>ar_type = ''FeatureCollection'',
      ar_features = concat (map su_intersectionFeatures results),
      ar_properties = Some
        \<lparr>total_area_acres = foldl (\<lambda>sum unit. sum + su_area_acres unit) 0 results,
         mapunit_count = length results,
         study_area = geojson\<rparr>\<rparr>"

text \<open>The stages of the \<^verbatim>\<open>try\<close> block of \<^verbatim>\<open>getSoilPolygonsAndAreas\<close> from the
  first progress report to the results of \<^verbatim>\<open>calculateSoilIntersections\<close>, for an input
  that has passed the first checks. \<^const>\<open>None\<close> stands for the early return on an empty key
  list.\<close>

definition analysis_stages ::
  "network \<Rightarrow> geo_lib \<Rightarrow> geojson \<Rightarrow> int option \<Rightarrow> bool \<Rightarrow> world \<Rightarrow>
   (js_error + soil_unit list option) \<times> world" where
  "analysis_stages net L geojson maxResults has_callback w =
     (let w1 = report has_callback 0 ''Converting geometry...'' w
      in case extractAndConvertGeometry L (Some geojson) of
           Inl e \<Rightarrow> (Inl e, w1)
         | Inr None \<Rightarrow>
             (Inl (JsError ''TypeError'' ''Cannot destructure property geometry of null''), w1)
         | Inr (Some (studyAreaGeometry, studyAreaWkt)) \<Rightarrow>
             if studyAreaWkt = [] then
               (Inl (JsError ''Error'' ''Failed to extract valid geometry from GeoJSON''), w1)
             else
               (let w2 = report has_callback 20 ''Finding soil map units...'' w1
                in case getSoilMapUnitKeys net studyAreaWkt w2 of
                     (Inl e, w3) \<Rightarrow> (Inl e, w3)
                   | (Inr mukeys, w3) \<Rightarrow>
                       if length mukeys = 0 then (Inr None, w3)
                       else
                         (let limitedMukeys = limit_mukeys maxResults mukeys;
                              w4 = report has_callback 40 ''Retrieving soil properties...'' w3
                          in case getSoilProperties net limitedMukeys w4 of
                               (Inl e, w5) \<Rightarrow> (Inl e, w5)
                             | (Inr soilProperties, w5) \<Rightarrow>
                                 (let w6 = report has_callback 60
                                             ''Calculating spatial intersections...'' w5
                                  in case calculateSoilIntersections net L limitedMukeys
                                            studyAreaWkt (Some studyAreaGeometry) soilProperties
                                            (Some (sub_progress has_callback)) w6 of
                                       (results, w7) \<Rightarrow> (Inr (Some results), w7)))))"

text \<open>The body of the \<^verbatim>\<open>try\<close> block of \<^verbatim>\<open>getSoilPolygonsAndAreas\<close>. The argument is an
  object or \<^verbatim>\<open>null\<close>, so the \<^verbatim>\<open>typeof\<close> test never fires.\<close>

definition soil_analysis ::
  "network \<Rightarrow> geo_lib \<Rightarrow> geojson option \<Rightarrow> int option \<Rightarrow> bool \<Rightarrow> world \<Rightarrow>
   (js_error + analysis_result) \<times> world" where
  "soil_analysis net L gj maxResults has_callback w =
     (case gj of
        None \<Rightarrow> (Inl (JsError ''Error'' ''No GeoJSON provided''), w)
      | Some geojson \<Rightarrow>
          if \<not> truthy_str (gj_type geojson) then
            (Inl (JsError ''Error'' (''GeoJSON must have a '' @ quote ''type'' @ '' property'')), w)
          else
            (case analysis_stages net L geojson maxResults has_callback w of
               (Inl e, w') \<Rightarrow> (Inl e, w')
             | (Inr None, w3) \<Rightarrow>
                 (Inr \<lparr>ar_type = ''FeatureCollection'', ar_features = [], ar_properties = None\<rparr>, w3)
             | (Inr (Some results), w7) \<Rightarrow>
                 (Inr (assemble_result geojson results),
                  report has_callback 100 ''Analysis complete'' w7)))"

definition getSoilPolygonsAndAreas ::
  "network \<Rightarrow> geo_lib \<Rightarrow> geojson option \<Rightarrow> int option \<Rightarrow> bool \<Rightarrow> world \<Rightarrow>
   (js_error + analysis_result) \<times> world" where
  "getSoilPolygonsAndAreas net L geojson maxResults has_callback w =
     (case soil_analysis net L geojson maxResults has_callback w of
        (Inl error, w') \<Rightarrow> (Inl (rethrow ''Soil analysis failed: '' error), w')
      | (Inr geoJsonResult, w') \<Rightarrow> (Inr geoJsonResult, w'))"

section \<open>The change detector\<close>

text \<open>The reduced payload handed to \<^verbatim>\<open>JSON.stringify\<close>, which is a parameter of the model:
  it gives the UTF-16 code units of the text.\<close>

record simplified_feature =
  sf_type :: "string option"
  sf_geometry :: geom

record simplified =
  s_type :: "string option"
  s_features :: "simplified_feature list"

text \<open>One round of the rolling hash. The shift and the final \<^verbatim>\<open>hash & hash\<close> both convert
  to a 32-bit integer, and the subtraction and addition between them are exact, so the round is
  the same arithmetic on 32-bit words.\<close>

definition hash_step :: "32 word \<Rightarrow> nat \<Rightarrow> 32 word" where
  "hash_step hash char = (push_bit 5 hash - hash + of_nat char) AND (push_bit 5 hash - hash + of_nat char)"

definition generateGeometryHash :: "(simplified \<Rightarrow> nat list) \<Rightarrow> geojson option \<Rightarrow> string option" where
  "generateGeometryHash JSON_stringify geojsonData =
     (case geojsonData of
        None \<Rightarrow> None
      | Some payload \<Rightarrow>
          (case gj_features payload of
             None \<Rightarrow> None
           | Some features \<Rightarrow>
               (let simplified =
                      \<lparr>s_type = gj_type payload,
                       s_features = map (\<lambda>f. \<lparr>sf_type = feat_type f, sf_geometry = feat_geometry f\<rparr>)
                                        features\<rparr>;
                    jsonString = JSON_stringify simplified
                in Some (show_int (sint (foldl hash_step 0 jsonString))))))"

section \<open>Invariants of the intersection loops\<close>

text \<open>What holds of every feature the polygon loop has pushed for the unit \<open>mukey\<close>, and of
  every unit the key loop has pushed while it went through keys of the set \<open>keys\<close>.\<close>

definition feature_ok :: "geo_lib \<Rightarrow> soil_table \<Rightarrow> string \<Rightarrow> intersection_feature \<Rightarrow> bool" where
  "feature_ok L soilProperties mukey f \<longleftrightarrow>
     if_area_acres f = sqmToAcres (ieee_times L) (if_area_square_meters f) \<and>
     0.0001 < if_area_acres f \<and>
     if_soil f = spread_record (table_lookup soilProperties mukey)"

definition unit_ok :: "geo_lib \<Rightarrow> soil_table \<Rightarrow> string set \<Rightarrow> soil_unit \<Rightarrow> bool" where
  "unit_ok L soilProperties keys u \<longleftrightarrow>
     0 < su_area_acres u \<and>
     su_mukey u \<in> keys \<and>
     truthy_member (table_lookup soilProperties (su_mukey u)) \<and>
     su_area_acres u = sum_list (map if_area_acres (su_intersectionFeatures u)) \<and>
     list_all (feature_ok L soilProperties (su_mukey u)) (su_intersectionFeatures u)"

section \<open>Sample inputs\<close>

text \<open>An endpoint that refuses every connection.\<close>

definition failing_net :: network where
  "failing_net n q = Rejects (JsError ''TypeError'' ''Failed to fetch'')"

text \<open>A study square of about 100 m by 100 m, a soil polygon of a few centimetres inside it,
  and a soil polygon that contains the study square.\<close>

definition study_square :: geometry where
  "study_square =
     \<lparr>geom_type = Some ''Polygon'',
      geom_coordinates = Some (Arr [Arr [Arr [Num 0, Num 0], Arr [Num 0.0009, Num 0],
         Arr [Num 0.0009, Num 0.0009], Arr [Num 0, Num 0.0009], Arr [Num 0, Num 0]]])\<rparr>"

definition tiny_soil :: geometry where
  "tiny_soil =
     \<lparr>geom_type = Some ''Polygon'',
      geom_coordinates = Some (Arr [Arr [Arr [Num 0.0001, Num 0.0001], Arr [Num 0.000102, Num 0.0001],
         Arr [Num 0.000102, Num 0.000102], Arr [Num 0.0001, Num 0.000102],
         Arr [Num 0.0001, Num 0.0001]]])\<rparr>"

definition big_soil :: geometry where
  "big_soil =
     \<lparr>geom_type = Some ''Polygon'',
      geom_coordinates = Some (Arr [Arr [Arr [Num (-0.01), Num (-0.01)], Arr [Num 0.01, Num (-0.01)],
         Arr [Num 0.01, Num 0.01], Arr [Num (-0.01), Num 0.01], Arr [Num (-0.01), Num (-0.01)]]])\<rparr>"

text \<open>Library answers on these three polygons: the overlay of a polygon with one that
  contains it is the contained polygon; the areas are 10000, 0.05 and 4900000 square metres.\<close>

definition sample_area :: "geom \<Rightarrow> js_error + number" where
  "sample_area g =
     (if g = Some study_square then Inr 10000
      else if g = Some tiny_soil then Inr 0.05
      else if g = Some big_soil then Inr 4900000
      else Inl (JsError ''Error'' ''unknown sample geometry''))"

definition sample_within :: "geom \<Rightarrow> geom \<Rightarrow> js_error + bool" where
  "sample_within a b =
     Inr (a = b \<or> (a = Some tiny_soil \<and> (b = Some study_square \<or> b = Some big_soil)) \<or>
          (a = Some study_square \<and> b = Some big_soil))"

definition sample_overlay :: "geom \<Rightarrow> geom \<Rightarrow> js_error + geom" where
  "sample_overlay a b =
     (case (sample_within a b, sample_within b a) of
        (Inr True, _) \<Rightarrow> Inr a
      | (_, Inr True) \<Rightarrow> Inr b
      | _ \<Rightarrow> Inr None)"

definition sample_clip :: "coords list \<Rightarrow> coords list \<Rightarrow> js_error + coords list" where
  "sample_clip a b =
     (if map Some a = [geom_coordinates tiny_soil] then Inr a
      else if map Some b = [geom_coordinates tiny_soil] then Inr b
      else if map Some a = [geom_coordinates study_square] then Inr a
      else if map Some b = [geom_coordinates study_square] then Inr b
      else Inr [])"

definition sample_parse :: "cell option \<Rightarrow> js_error + geom" where
  "sample_parse c =
     (case c of
        Some (CStr s) \<Rightarrow>
          if s = ''TINY'' then Inr (Some tiny_soil)
          else if s = ''BIG'' then Inr (Some big_soil)
          else if s = ''SQUARE'' then Inr (Some study_square)
          else Inr None
      | _ \<Rightarrow> Inl (JsError ''TypeError'' ''Cannot read properties of null (reading split)''))"

text \<open>
  The double products that \<^verbatim>\<open>sqmToAcres\<close> forms for areas of 10000 and of 8500000 square
  metres, as the engine computes them: \<open>10000 * 0.000247105381\<close> is the double
  \<open>2782159254482111 / 2 ^ 50\<close> and a million times that is \<open>5306547650303099 / 2 ^ 31\<close>
  (2471053.81 to the last digit shown); \<open>8500000 * 0.000247105381\<close> is
  \<open>4618819074823817 / 2 ^ 41\<close> and a million times that is \<open>8809698247573503 / 2 ^ 22\<close>
  (2100395738.4999998), just below the half that the exact product 2100395738.5 reaches.
  No other product is formed in the sample runs.
\<close>

definition sample_times :: "number \<Rightarrow> number \<Rightarrow> number" where
  "sample_times x y =
     (if x = 10000 \<and> y = ACRES_PER_SQM then 2782159254482111 / 2 ^ 50
      else if x = 2782159254482111 / 2 ^ 50 \<and> y = 1000000 then 5306547650303099 / 2 ^ 31
      else if x = 8500000 \<and> y = ACRES_PER_SQM then 4618819074823817 / 2 ^ 41
      else if x = 4618819074823817 / 2 ^ 41 \<and> y = 1000000 then 8809698247573503 / 2 ^ 22
      else x * y)"

text \<open>The WKT text the sample library gives for every geometry.\<close>

definition sample_wkt :: string where
  "sample_wkt = ''POLYGON ((0 0, 0.0009 0, 0.0009 0.0009, 0 0.0009, 0 0))''"

definition sample_lib :: geo_lib where
  "sample_lib =
     \<lparr>turf_intersect = sample_overlay,
      turf_area = sample_area,
      turf_booleanWithin = sample_within,
      turf_booleanIntersects = (\<lambda>a b. Inr True),
      turf_union = (\<lambda>a b. Inr (Some a)),
      polygonClipping_intersection = sample_clip,
      wkx_stringify = (\<lambda>g. Inr (Some sample_wkt)),
      wkx_parse = sample_parse,
      ieee_times = sample_times\<rparr>"

text \<open>A feature collection without features, and one holding the study square.\<close>

definition empty_collection :: geojson where
  "empty_collection =
     \<lparr>gj_type = Some ''FeatureCollection'', gj_features = Some [], gj_geometry = None,
      gj_coordinates = None\<rparr>"

definition square_collection :: geojson where
  "square_collection =
     \<lparr>gj_type = Some ''FeatureCollection'',
      gj_features = Some [\<lparr>feat_type = Some ''Feature'', feat_properties = Some (JObj []),
                            feat_geometry = Some study_square\<rparr>],
      gj_geometry = None, gj_coordinates = None\<rparr>"

text \<open>A well-formed answer of the service carrying the given table, and an endpoint that
  answers every query with no rows.\<close>

definition table_response :: "row list option \<Rightarrow> fetch_outcome" where
  "table_response t =
     Resolves \<lparr>resp_ok = True, resp_status = 200, resp_statusText = ''OK'',
               resp_text = Inr [], resp_content_type = Some ''application/json; charset=utf-8'',
               resp_json = Inr (DataObject t)\<rparr>"

definition empty_net :: network where
  "empty_net n q = table_response None"

text \<open>An endpoint that answers the first request with the key 123456, the second with its
  property row and every later one with a polygon row holding the large soil polygon.\<close>

definition unit_row :: row where
  "unit_row = [CStr ''123456'', CStr ''Pawnee clay loam'', CStr ''Mollisols'', CStr ''Udolls'',
               CStr ''Moderately well drained'', CNull, CStr ''Fine, smectitic, mesic Aquertic Argiudolls'',
               CStr ''6.2'', CStr ''3.5'', CStr ''28'', CStr ''38'', CStr ''34'', CStr ''Clay loam'']"

definition one_unit_net :: network where
  "one_unit_net n q =
     (if n = 0 then table_response (Some [[CStr ''123456'']])
      else if n = 1 then table_response (Some [unit_row])
      else table_response (Some [[CStr ''BIG'']]))"

definition world0 :: world where
  "world0 = \<lparr>sent = 0, events = []\<rparr>"

text \<open>The feature and the unit that a run on the one-unit endpoint produces.\<close>

definition sample_feature :: intersection_feature where
  "sample_feature =
     \<lparr>if_mukey = Some (CStr ''123456''), if_area_acres = 2.471054, if_area_square_meters = 10000,
      if_intersection_method = ''turf_intersect'', if_soil = Some (props_of_row unit_row),
      if_geometry = Some study_square\<rparr>"

definition sample_unit :: soil_unit where
  "sample_unit =
     \<lparr>su_mukey = ''123456'', su_area_acres = 2.471054, su_intersectionFeatures = [sample_feature]\<rparr>"

definition sample_props :: soil_table where
  "sample_props = \<lparr>st_own = [''123456'' \<mapsto> props_of_row unit_row], st_proto = None\<rparr>"

text \<open>The world after the first, the second and the third request of that run.\<close>

definition sample_world1 :: world where
  "sample_world1 = \<lparr>sent = 1, events = [Fetched (trim (mukeyQuery sample_wkt))]\<rparr>"

definition sample_world2 :: world where
  "sample_world2 =
     \<lparr>sent = 2, events = [Fetched (trim (mukeyQuery sample_wkt)),
                          Fetched (trim (soilPropertiesQuery [''123456'']))]\<rparr>"

definition sample_world :: world where
  "sample_world =
     \<lparr>sent = 3, events = [Fetched (trim (mukeyQuery sample_wkt)),
                          Fetched (trim (soilPropertiesQuery [''123456''])),
                          Fetched (trim (polygonQuery ''123456''))]\<rparr>"

text \<open>The study square once more, drawn with a name and a colour attached, and a stand-in for
  \<^verbatim>\<open>JSON.stringify\<close> that writes the type names of the reduced payload in order.\<close>

definition named_square_collection :: geojson where
  "named_square_collection =
     \<lparr>gj_type = Some ''FeatureCollection'',
      gj_features = Some [\<lparr>feat_type = Some ''Feature'',
                            feat_properties = Some (JObj [(''name'', JStr ''North field''),
                                                          (''color'', JStr ''#3388ff'')]),
                            feat_geometry = Some study_square\<rparr>],
      gj_geometry = None, gj_coordinates = None\<rparr>"

definition sample_stringify :: "simplified \<Rightarrow> nat list" where
  "sample_stringify s =
     map of_char ((case s_type s of None \<Rightarrow> [] | Some t \<Rightarrow> t) @
                  concat (map (\<lambda>f. case sf_type f of None \<Rightarrow> [] | Some t \<Rightarrow> t) (s_features s)))"

text \<open>An endpoint that answers the first request with one row for each of the given keys
  and every later request with no rows.\<close>

definition keys_net :: "string list \<Rightarrow> network" where
  "keys_net ks n q =
     (if n = 0 then table_response (Some (map (\<lambda>k. [CStr k]) ks)) else table_response None)"

section \<open>Properties of the query executor\<close>

lemma executeSDQuery_loop_all_fail:
  assumes "\<forall>k. attempt \<le> k \<and> k < retries \<longrightarrow>
             try_attempt (net (sent w + (k - attempt)) body) = Inl (errs k) \<and>
             errs k \<noteq> JsUndefined \<and> err_name (errs k) \<noteq> ''AbortError''"
  shows "executeSDQuery_loop net body retries attempt lastError w =
           (Inl (if attempt < retries then errs (retries - 1) else lastError),
            w\<lparr>sent := sent w + (retries - attempt),
              events := events w @ retry_schedule body retries attempt\<rparr>)"
  using assms
proof (induction "retries - attempt" arbitrary: attempt lastError w)
  case 0
  then show ?case by (simp add: retry_schedule_def executeSDQuery_loop.simps)
next
  case (Suc n)
  then have lt: "attempt < retries" by simp
  from Suc.prems lt have here: "try_attempt (net (sent w) body) = Inl (errs attempt)"
    and ok: "errs attempt \<noteq> JsUndefined" "err_name (errs attempt) \<noteq> ''AbortError''"
    by auto
  obtain nm msg where e: "errs attempt = JsError nm msg" using ok(1) by (cases "errs attempt") auto
  with ok have nm: "nm \<noteq> ''AbortError''" by simp
  define w2 where "w2 = (if attempt < retries - 1
        then w\<lparr>sent := sent w + 1, events := events w @ [Fetched body, Waited (backoff_delay attempt)]\<rparr>
        else w\<lparr>sent := sent w + 1, events := events w @ [Fetched body]\<rparr>)"
  have step: "executeSDQuery_loop net body retries attempt lastError w =
              executeSDQuery_loop net body retries (attempt + 1) (JsError nm msg) w2"
    using lt here e nm by (subst executeSDQuery_loop.simps) (simp add: w2_def Let_def)
  have n: "n = retries - (attempt + 1)" using Suc.hyps(2) by simp
  have pre: "\<forall>k. attempt + 1 \<le> k \<and> k < retries \<longrightarrow>
             try_attempt (net (sent w2 + (k - (attempt + 1))) body) = Inl (errs k) \<and>
             errs k \<noteq> JsUndefined \<and> err_name (errs k) \<noteq> ''AbortError''"
  proof (intro allI impI)
    fix k assume k: "attempt + 1 \<le> k \<and> k < retries"
    then have "sent w2 + (k - (attempt + 1)) = sent w + (k - attempt)" by (simp add: w2_def)
    with Suc.prems k show "try_attempt (net (sent w2 + (k - (attempt + 1))) body) = Inl (errs k) \<and>
             errs k \<noteq> JsUndefined \<and> err_name (errs k) \<noteq> ''AbortError''" by simp
  qed
  have sched: "retry_schedule body retries attempt =
        (Fetched body # (if attempt < retries - 1 then [Waited (backoff_delay attempt)] else []))
        @ retry_schedule body retries (attempt + 1)"
    using lt by (simp add: retry_schedule_def upt_conv_Cons)
  have last: "attempt + 1 < retries \<or> errs (retries - 1) = JsError nm msg"
  proof (cases "attempt + 1 < retries")
    case True
    then show ?thesis by simp
  next
    case False
    with lt have "retries - 1 = attempt" by simp
    with e show ?thesis by simp
  qed
  show ?case
    unfolding step Suc.hyps(1)[OF n pre, of "JsError nm msg"] sched
    using lt last by (auto simp: w2_def)
qed

lemma retry_schedule_fetches:
  "[q. Fetched q \<leftarrow> retry_schedule body retries 0] = replicate retries body"
proof -
  have "[q. Fetched q \<leftarrow> concat (map (\<lambda>k. Fetched body #
           (if k < retries - 1 then [Waited (backoff_delay k)] else [])) ks)]
        = replicate (length ks) body" for ks
    by (induction ks) auto
  from this [of "[0..<retries]"] show ?thesis by (simp add: retry_schedule_def)
qed

lemma retry_schedule_waits:
  "[d. Waited d \<leftarrow> retry_schedule body retries 0] =
     map (\<lambda>k. min (1000 * 2 ^ k) 10000) [0..<retries - 1]"
proof -
  have "[d. Waited d \<leftarrow> retry_schedule body retries a] = map backoff_delay [a..<retries - 1]" for a
    unfolding retry_schedule_def
  proof (induction "retries - a" arbitrary: a)
    case 0
    then show ?case by simp
  next
    case (Suc n)
    then have lt: "a < retries" and n: "n = retries - Suc a" by simp_all
    show ?case
    proof (cases "a < retries - 1")
      case True
      then have "[a..<retries - 1] = a # [Suc a..<retries - 1]" by (simp add: upt_conv_Cons)
      with Suc.hyps(1)[OF n] lt True show ?thesis by (simp add: upt_conv_Cons)
    next
      case False
      with lt have "Suc a = retries" by simp
      then show ?thesis using lt by (simp add: upt_conv_Cons)
    qed
  qed
  from this [of 0] show ?thesis by (simp add: backoff_delay_def [abs_def])
qed

lemma retry_schedule_last:
  "0 < retries \<Longrightarrow> last (retry_schedule body retries 0) = Fetched body"
proof -
  assume "0 < retries"
  then have "[0..<retries] = [0..<retries - 1] @ [retries - 1]"
    by (metis Suc_diff_1 upt_Suc_append zero_le)
  then show ?thesis by (simp add: retry_schedule_def)
qed

text \<open>
  Claim C4. On an endpoint whose every attempt fails with an error other than a cancellation,
  \<^verbatim>\<open>executeSDQuery\<close> makes exactly \<open>retries\<close> attempts, pauses
  \<open>min (1000 * 2 ^ k) 10000\<close> milliseconds after attempt \<open>k\<close> for every attempt but the
  last, makes no pause after the last attempt, and throws the error of the last attempt unchanged.
\<close>

theorem executeSDQuery_always_failing:
  assumes "0 < retries"
    and "\<forall>k<retries. try_attempt (net (sent w + k) (trim query)) = Inl (errs k) \<and>
           errs k \<noteq> JsUndefined \<and> err_name (errs k) \<noteq> ''AbortError''"
  shows "executeSDQuery net query retries w =
           (Inl (errs (retries - 1)),
            w\<lparr>sent := sent w + retries,
              events := events w @ retry_schedule (trim query) retries 0\<rparr>) \<and>
         [q. Fetched q \<leftarrow> retry_schedule (trim query) retries 0] = replicate retries (trim query) \<and>
         [d. Waited d \<leftarrow> retry_schedule (trim query) retries 0] =
           map (\<lambda>k. min (1000 * 2 ^ k) 10000) [0..<retries - 1] \<and>
         last (retry_schedule (trim query) retries 0) = Fetched (trim query)"
proof -
  have "\<forall>k. 0 \<le> k \<and> k < retries \<longrightarrow>
          try_attempt (net (sent w + (k - 0)) (trim query)) = Inl (errs k) \<and>
          errs k \<noteq> JsUndefined \<and> err_name (errs k) \<noteq> ''AbortError''"
    using assms(2) by simp
  from executeSDQuery_loop_all_fail
         [where attempt = 0 and retries = retries and net = net and w = w
            and body = "trim query" and errs = errs and lastError = JsUndefined, OF this] assms(1)
  have run: "executeSDQuery net query retries w =
           (Inl (errs (retries - 1)),
            w\<lparr>sent := sent w + retries,
              events := events w @ retry_schedule (trim query) retries 0\<rparr>)"
    by (simp add: executeSDQuery_def)
  have last: "last (retry_schedule (trim query) retries 0) = Fetched (trim query)"
    using assms(1) by (rule retry_schedule_last)
  from run last show ?thesis
    by (simp only: retry_schedule_fetches retry_schedule_waits simp_thms)
qed

theorem executeSDQuery_always_failing_witness:
  "(\<forall>k. try_attempt (failing_net k ''SELECT 1'') = Inl (JsError ''TypeError'' ''Failed to fetch'')) \<and>
   executeSDQuery failing_net '' SELECT 1 '' 3 \<lparr>sent = 0, events = []\<rparr> =
     (Inl (JsError ''TypeError'' ''Failed to fetch''),
      \<lparr>sent = 3,
       events = [Fetched ''SELECT 1'', Waited 1000, Fetched ''SELECT 1'', Waited 2000,
                 Fetched ''SELECT 1'']\<rparr>)"
proof -
  have fails: "\<forall>k. try_attempt (failing_net k ''SELECT 1'') = Inl (JsError ''TypeError'' ''Failed to fetch'')"
    by (simp add: try_attempt_def failing_net_def)
  have tr: "trim '' SELECT 1 '' = ''SELECT 1''"
    by (simp add: trim_def is_space_def)
  have hyp: "\<forall>k<3. try_attempt (failing_net (sent \<lparr>sent = 0, events = []\<rparr> + k) (trim '' SELECT 1 ''))
            = Inl (JsError ''TypeError'' ''Failed to fetch'') \<and>
          JsError ''TypeError'' ''Failed to fetch'' \<noteq> JsUndefined \<and>
          err_name (JsError ''TypeError'' ''Failed to fetch'') \<noteq> ''AbortError''"
    using fails by (simp add: tr)
  have sched: "retry_schedule ''SELECT 1'' 3 0 =
      [Fetched ''SELECT 1'', Waited 1000, Fetched ''SELECT 1'', Waited 2000, Fetched ''SELECT 1'']"
    by (simp add: retry_schedule_def upt_conv_Cons backoff_delay_def)
  have pos: "0 < (3::nat)" by simp
  from executeSDQuery_always_failing
         [where retries = 3 and net = failing_net and w = "\<lparr>sent = 0, events = []\<rparr>"
            and query = "'' SELECT 1 ''" and errs = "\<lambda>k. JsError ''TypeError'' ''Failed to fetch''",
          OF pos hyp] fails
  show ?thesis
    by (simp add: tr sched)
qed

section \<open>Properties of the robust intersection calculator\<close>

lemma turf_intersect_method_Return:
  "turf_intersect_method L soil study = Return r \<Longrightarrow>
     \<exists>g a. r = Some \<lparr>rr_geometry = Some g, rr_area = a, rr_method = ''turf_intersect''\<rparr> \<and> 0.1 \<le> a"
  by (auto simp: turf_intersect_method_def split: sum.splits option.splits if_splits)

lemma polygon_clipping_method_Return:
  "polygon_clipping_method L soil study = Return (Some r) \<Longrightarrow>
     rr_method r = ''polygon_clipping'' \<and> 0.1 \<le> rr_area r"
  by (auto simp: polygon_clipping_method_def Let_def
           split: sum.splits option.splits if_splits prod.splits)

lemma containment_method_Some:
  "containment_method L soil study = Some r \<Longrightarrow>
     (rr_method r = ''soil_within_study'' \<and> rr_geometry r = soil \<and> turf_area L soil = Inr (rr_area r)) \<or>
     (rr_method r = ''study_within_soil'' \<and> rr_geometry r = study \<and> turf_area L study = Inr (rr_area r))"
  by (auto simp: containment_method_def split: sum.splits bool.splits)

lemma calculateRobustIntersection_Some:
  assumes "calculateRobustIntersection L soil study = Some r"
  shows "((rr_method r = ''turf_intersect'' \<or> rr_method r = ''polygon_clipping'') \<and> 0.1 \<le> rr_area r) \<or>
         (rr_method r = ''soil_within_study'' \<and> rr_geometry r = soil \<and>
            turf_area L soil = Inr (rr_area r)) \<or>
         (rr_method r = ''study_within_soil'' \<and> rr_geometry r = study \<and>
            turf_area L study = Inr (rr_area r))"
proof (cases "turf_intersect_method L soil study")
  case (Return x)
  with assms have "x = Some r" by (simp add: calculateRobustIntersection_def)
  with Return turf_intersect_method_Return [of L soil study x] show ?thesis by auto
next
  case FallThrough
  note m1 = this
  show ?thesis
  proof (cases "polygon_clipping_method L soil study")
    case (Return x)
    with assms m1 have "x = Some r" by (simp add: calculateRobustIntersection_def)
    with Return polygon_clipping_method_Return [of L soil study r] show ?thesis by simp
  next
    case FallThrough
    with assms m1 have "containment_method L soil study = Some r"
      by (simp add: calculateRobustIntersection_def)
    from containment_method_Some [OF this] show ?thesis by blast
  qed
qed

text \<open>
  Claim C1, as the code has it. A non-null result of \<^verbatim>\<open>calculateRobustIntersection\<close> that
  the overlay method or the clipping method produced has an area of at least 0.1 square metres.
  A result of the containment method is the contained polygon with its own area, and that area
  is not compared with the threshold. The function returns \<^verbatim>\<open>null\<close> when the first two
  methods fall through and the containment method finds nothing.
\<close>

theorem calculateRobustIntersection_area:
  "(calculateRobustIntersection L soil study = Some r \<longrightarrow>
      ((rr_method r = ''turf_intersect'' \<or> rr_method r = ''polygon_clipping'') \<and> 0.1 \<le> rr_area r) \<or>
      (rr_method r = ''soil_within_study'' \<and> rr_geometry r = soil \<and>
         turf_area L soil = Inr (rr_area r)) \<or>
      (rr_method r = ''study_within_soil'' \<and> rr_geometry r = study \<and>
         turf_area L study = Inr (rr_area r))) \<and>
   (turf_intersect_method L soil study = FallThrough \<and>
    polygon_clipping_method L soil study = FallThrough \<and>
    containment_method L soil study = None \<longrightarrow>
      calculateRobustIntersection L soil study = None)"
proof (intro conjI impI)
  assume "calculateRobustIntersection L soil study = Some r"
  then show "((rr_method r = ''turf_intersect'' \<or> rr_method r = ''polygon_clipping'') \<and> 0.1 \<le> rr_area r) \<or>
      (rr_method r = ''soil_within_study'' \<and> rr_geometry r = soil \<and>
         turf_area L soil = Inr (rr_area r)) \<or>
      (rr_method r = ''study_within_soil'' \<and> rr_geometry r = study \<and>
         turf_area L study = Inr (rr_area r))"
    by (rule calculateRobustIntersection_Some)
next
  assume "turf_intersect_method L soil study = FallThrough \<and>
    polygon_clipping_method L soil study = FallThrough \<and>
    containment_method L soil study = None"
  then show "calculateRobustIntersection L soil study = None"
    by (simp add: calculateRobustIntersection_def)
qed

lemmas sample_defs =
  calculateRobustIntersection_def turf_intersect_method_def polygon_clipping_method_def
  containment_method_def getPolygonCoordinates_def truthy_coords_def sample_lib_def
  sample_overlay_def sample_within_def sample_area_def sample_clip_def
  tiny_soil_def study_square_def big_soil_def

theorem calculateRobustIntersection_area_witness:
  "calculateRobustIntersection sample_lib (Some big_soil) (Some study_square) =
     Some \<lparr>rr_geometry = Some study_square, rr_area = 10000, rr_method = ''turf_intersect''\<rparr> \<and>
   (0.1 :: real) \<le> rr_area \<lparr>rr_geometry = Some study_square, rr_area = 10000, rr_method = ''turf_intersect''\<rparr>"
proof -
  have run: "calculateRobustIntersection sample_lib (Some big_soil) (Some study_square) =
     Some \<lparr>rr_geometry = Some study_square, rr_area = 10000, rr_method = ''turf_intersect''\<rparr>"
    by (simp add: sample_defs)
  from calculateRobustIntersection_area
         [of sample_lib "Some big_soil" "Some study_square"
             "\<lparr>rr_geometry = Some study_square, rr_area = 10000, rr_method = ''turf_intersect''\<rparr>"]
       run
  show ?thesis by simp
qed

text \<open>The claim as stated fails for the containment method: a soil polygon of 0.05 square
  metres inside the study area is returned with that area.\<close>

theorem calculateRobustIntersection_small_containment:
  "calculateRobustIntersection sample_lib (Some tiny_soil) (Some study_square) =
     Some \<lparr>rr_geometry = Some tiny_soil, rr_area = 0.05, rr_method = ''soil_within_study''\<rparr> \<and>
   \<not> (0.1 :: real) \<le> rr_area \<lparr>rr_geometry = Some tiny_soil, rr_area = 0.05, rr_method = ''soil_within_study''\<rparr>"
  by (simp add: sample_defs)




section \<open>Properties of the main function\<close>

lemma executeSDQuery_first_success:
  assumes "try_attempt (net (sent w) (trim q)) = Inr rows" and "0 < retries"
  shows "executeSDQuery net q retries w =
           (Inr rows, w\<lparr>sent := sent w + 1, events := events w @ [Fetched (trim q)]\<rparr>)"
  using assms by (simp add: executeSDQuery_def executeSDQuery_loop.simps [of _ _ _ 0] Let_def)

lemma extractAndConvertGeometry_wkt:
  "extractAndConvertGeometry L gj = Inr (Some (g, wkt)) \<Longrightarrow> wkt \<noteq> []"
  by (auto simp: extractAndConvertGeometry_def truthy_str_def
           split: option.splits sum.splits if_splits)

lemma extract_geometry_empty_collection:
  assumes "gj_type g = Some ''FeatureCollection''"
    and "gj_features g = None \<or> gj_features g = Some []"
  shows "extract_geometry L g = Inl (JsError ''Error'' ''Unsupported GeoJSON type: FeatureCollection'')"
  using assms by (auto simp: extract_geometry_def)

text \<open>
  Claim C9. For a FeatureCollection whose \<^verbatim>\<open>features\<close> array is empty or missing,
  \<^verbatim>\<open>getSoilPolygonsAndAreas\<close> returns no result: the normalizer reaches its unsupported-type
  branch and the call fails with that error, wrapped by both \<^verbatim>\<open>catch\<close> blocks, before any
  request is sent.
\<close>

theorem getSoilPolygonsAndAreas_empty_collection:
  assumes "gj_type g = Some ''FeatureCollection''"
    and "gj_features g = None \<or> gj_features g = Some []"
  shows "getSoilPolygonsAndAreas net L (Some g) maxResults has_callback w =
           (Inl (JsError ''Error''
              ''Soil analysis failed: Geometry processing failed: Unsupported GeoJSON type: FeatureCollection''),
            report has_callback 0 ''Converting geometry...'' w)"
proof -
  have "extractAndConvertGeometry L (Some g) =
          Inl (JsError ''Error'' ''Geometry processing failed: Unsupported GeoJSON type: FeatureCollection'')"
    by (simp add: extractAndConvertGeometry_def extract_geometry_empty_collection [OF assms] rethrow_def)
  then show ?thesis
    using assms(1)
    by (simp add: getSoilPolygonsAndAreas_def soil_analysis_def analysis_stages_def truthy_str_def rethrow_def Let_def)
qed

theorem getSoilPolygonsAndAreas_empty_collection_witness:
  "getSoilPolygonsAndAreas empty_net sample_lib (Some empty_collection) None True world0 =
     (Inl (JsError ''Error''
        ''Soil analysis failed: Geometry processing failed: Unsupported GeoJSON type: FeatureCollection''),
      \<lparr>sent = 0,
       events = [Progressed \<lparr>pg_current = 0, pg_total = 100, pg_message = ''Converting geometry...'',
                             pg_percentage = 0\<rparr>]\<rparr>)"
proof -
  have t: "gj_type empty_collection = Some ''FeatureCollection''"
    by (simp add: empty_collection_def)
  have f: "gj_features empty_collection = None \<or> gj_features empty_collection = Some []"
    by (simp add: empty_collection_def)
  from getSoilPolygonsAndAreas_empty_collection [OF t f, of empty_net sample_lib None True world0]
  show ?thesis by (simp add: report_def emit_def world0_def)
qed

text \<open>
  Claim C2, as the code has it. When the lookup finds no key, \<^verbatim>\<open>getSoilPolygonsAndAreas\<close>
  returns without error a feature collection with an empty feature list and no
  \<^verbatim>\<open>properties\<close> object, and the world is left as the lookup left it: no property query
  and no polygon query is sent, and no further progress is reported.
\<close>

theorem getSoilPolygonsAndAreas_no_keys:
  assumes "truthy_str (gj_type g)"
    and "extractAndConvertGeometry L (Some g) = Inr (Some (studyAreaGeometry, studyAreaWkt))"
    and "getSoilMapUnitKeys net studyAreaWkt
           (report has_callback 20 ''Finding soil map units...''
              (report has_callback 0 ''Converting geometry...'' w)) = (Inr [], w')"
  shows "getSoilPolygonsAndAreas net L (Some g) maxResults has_callback w =
           (Inr \<lparr>ar_type = ''FeatureCollection'', ar_features = [], ar_properties = None\<rparr>, w')"
  using assms extractAndConvertGeometry_wkt [OF assms(2)]
  by (simp add: getSoilPolygonsAndAreas_def soil_analysis_def analysis_stages_def Let_def)

lemma sample_extract:
  "extractAndConvertGeometry sample_lib (Some square_collection) =
     Inr (Some (study_square, sample_wkt))"
  by (simp add: extractAndConvertGeometry_def extract_geometry_def square_collection_def
        sample_lib_def truthy_str_def truthy_coords_def study_square_def sample_wkt_def)

lemma try_attempt_table_response:
  "try_attempt (table_response t) = Inr (case t of None \<Rightarrow> [] | Some rows \<Rightarrow> rows)"
  by (simp add: try_attempt_def table_response_def read_response_def split: option.splits)

lemma sample_lookup_no_keys:
  "getSoilMapUnitKeys empty_net sample_wkt world0 =
     (Inr [], \<lparr>sent = 1,
        events = [Fetched (mukeyQuery sample_wkt)]\<rparr>)"
proof -
  have tr: "trim (mukeyQuery sample_wkt) = mukeyQuery sample_wkt"
    by (simp add: trim_def mukeyQuery_def quote_def is_space_def sample_wkt_def)
  have q: "executeSDQuery empty_net (mukeyQuery sample_wkt) MAX_RETRIES world0 =
             (Inr [], \<lparr>sent = 1, events = [Fetched (mukeyQuery sample_wkt)]\<rparr>)"
    by (subst executeSDQuery_first_success [where rows = "[]"])
       (simp_all add: empty_net_def try_attempt_table_response MAX_RETRIES_def world0_def tr)
  show ?thesis
    by (simp add: getSoilMapUnitKeys_def q)
qed

lemma square_collection_type: "truthy_str (gj_type square_collection)"
  by (simp add: truthy_str_def square_collection_def)

theorem getSoilPolygonsAndAreas_no_keys_witness:
  "getSoilPolygonsAndAreas empty_net sample_lib (Some square_collection) None False world0 =
     (Inr \<lparr>ar_type = ''FeatureCollection'', ar_features = [], ar_properties = None\<rparr>,
      \<lparr>sent = 1,
       events = [Fetched (mukeyQuery sample_wkt)]\<rparr>)"
proof -
  have k: "getSoilMapUnitKeys empty_net sample_wkt
             (report False 20 ''Finding soil map units...''
                (report False 0 ''Converting geometry...'' world0)) =
           (Inr [], \<lparr>sent = 1, events = [Fetched (mukeyQuery sample_wkt)]\<rparr>)"
    by (simp add: report_def sample_lookup_no_keys)
  from getSoilPolygonsAndAreas_no_keys [OF square_collection_type sample_extract k]
  show ?thesis .
qed

text \<open>The claim as stated fails on the \<^verbatim>\<open>properties\<close> object: the result of such a run has
  none, so it carries neither \<^verbatim>\<open>total_area_acres\<close> nor \<^verbatim>\<open>mapunit_count\<close>.\<close>

theorem getSoilPolygonsAndAreas_no_keys_no_properties:
  "map_sum id ar_properties
     (fst (getSoilPolygonsAndAreas empty_net sample_lib (Some square_collection) None False world0)) =
   Inr None"
  using square_collection_type extractAndConvertGeometry_wkt [OF sample_extract]
  by (simp add: getSoilPolygonsAndAreas_def soil_analysis_def analysis_stages_def Let_def sample_extract
        report_def sample_lookup_no_keys)

section \<open>Properties of the intersection pipeline\<close>

lemma process_polygon_ok:
  "process_polygon L mukey study sp r = Some f \<Longrightarrow> feature_ok L sp mukey f"
  by (auto simp: process_polygon_def feature_ok_def Let_def
           split: sum.splits option.splits if_splits prod.splits)

lemma polygon_loop_inv:
  assumes "polygon_loop L mukey study sp rs tot feats = (tot', feats')"
    and "list_all (feature_ok L sp mukey) feats"
    and "tot = sum_list (map if_area_acres feats)"
  shows "list_all (feature_ok L sp mukey) feats' \<and> tot' = sum_list (map if_area_acres feats')"
  using assms
proof (induction rs arbitrary: tot feats)
  case Nil
  then show ?case by auto
next
  case (Cons r rs)
  show ?case
  proof (cases "process_polygon L mukey study sp r")
    case None
    with Cons.prems(1) have "polygon_loop L mukey study sp rs tot feats = (tot', feats')"
      by simp
    from Cons.IH [OF this Cons.prems(2,3)] show ?thesis .
  next
    case (Some f)
    with Cons.prems(1)
    have run: "polygon_loop L mukey study sp rs (tot + if_area_acres f) (feats @ [f]) = (tot', feats')"
      by simp
    have ok: "list_all (feature_ok L sp mukey) (feats @ [f])"
      using Cons.prems(2) process_polygon_ok [OF Some] by simp
    have tot: "tot + if_area_acres f = sum_list (map if_area_acres (feats @ [f]))"
      using Cons.prems(3) by simp
    from Cons.IH [OF run ok tot] show ?thesis .
  qed
qed

lemma mukey_loop_inv:
  assumes "mukey_loop net L n study sp cb ks results processed w = ((results', processed'), w')"
    and "list_all (unit_ok L sp keys) results"
    and "set ks \<subseteq> keys"
  shows "list_all (unit_ok L sp keys) results'"
  using assms
proof (induction ks arbitrary: results processed w)
  case Nil
  then show ?case by simp
next
  case (Cons mukey rest)
  define w1 where "w1 = (case cb of None \<Rightarrow> w
       | Some f \<Rightarrow> f \<lparr>pg_current = int processed, pg_total = int n,
                      pg_message = ''Processing soil unit '' @ mukey @ ''...'',
                      pg_percentage = Math_round (real processed / real n * 100)\<rparr> w)"
  obtain r w2 where q: "executeSDQuery net (polygonQuery mukey) MAX_RETRIES w1 = (r, w2)"
    by (cases "executeSDQuery net (polygonQuery mukey) MAX_RETRIES w1")
  show ?case
  proof (cases r)
    case (Inl e)
    with Cons.prems(1) q
    have "mukey_loop net L n study sp cb rest results (processed + 1) w2 = ((results', processed'), w')"
      by (simp add: w1_def Let_def)
    from Cons.IH [OF this Cons.prems(2)] Cons.prems(3) show ?thesis by simp
  next
    case (Inr polygonData)
    show ?thesis
    proof (cases "length polygonData = 0")
      case True
      with Inr Cons.prems(1) q
      have "mukey_loop net L n study sp cb rest results (processed + 1) w2 = ((results', processed'), w')"
        by (simp add: w1_def Let_def)
      from Cons.IH [OF this Cons.prems(2)] Cons.prems(3) show ?thesis by simp
    next
      case False
      obtain tot feats where pl: "polygon_loop L mukey study sp polygonData 0 [] = (tot, feats)"
        by (cases "polygon_loop L mukey study sp polygonData 0 []")
      define results2 where "results2 =
        (if tot > 0 \<and> truthy_member (table_lookup sp mukey) then
           results @ [\<lparr>su_mukey = mukey, su_area_acres = tot, su_intersectionFeatures = feats\<rparr>]
         else results)"
      from False Inr Cons.prems(1) q pl
      have run: "mukey_loop net L n study sp cb rest results2 (processed + 1) w2 = ((results', processed'), w')"
        by (simp add: w1_def Let_def results2_def)
      from polygon_loop_inv [OF pl] have "list_all (feature_ok L sp mukey) feats \<and>
          tot = sum_list (map if_area_acres feats)" by simp
      then have "tot > 0 \<and> truthy_member (table_lookup sp mukey) \<longrightarrow>
          unit_ok L sp keys \<lparr>su_mukey = mukey, su_area_acres = tot, su_intersectionFeatures = feats\<rparr>"
        using Cons.prems(3) by (simp add: unit_ok_def)
      then have "list_all (unit_ok L sp keys) results2"
        using Cons.prems(2) by (simp add: results2_def)
      from Cons.IH [OF run this] Cons.prems(3) show ?thesis by simp
    qed
  qed
qed

lemma calculateSoilIntersections_ok:
  "list_all (unit_ok L sp (set mukeys))
     (fst (calculateSoilIntersections net L mukeys wkt study sp cb w))"
proof -
  obtain results processed w1
    where run: "mukey_loop net L (length mukeys) study sp cb mukeys [] 0 w = ((results, processed), w1)"
    by (metis surj_pair)
  from mukey_loop_inv [OF run, of "set mukeys"] have "list_all (unit_ok L sp (set mukeys)) results"
    by simp
  then have "list_all (unit_ok L sp (set mukeys)) (sort_key (\<lambda>unit. - su_area_acres unit) results)"
    by (simp add: list_all_iff)
  with run show ?thesis by (simp add: calculateSoilIntersections_def)
qed

lemma foldl_area_sum:
  "foldl (\<lambda>sum unit. sum + su_area_acres unit) a results = a + sum_list (map su_area_acres results)"
  by (induction results arbitrary: a) simp_all

lemma analysis_stages_units:
  assumes "analysis_stages net L g maxResults has_callback w = (Inr (Some results), w')"
  shows "\<exists>sp keys. list_all (unit_ok L sp keys) results"
  using assms calculateSoilIntersections_ok
  apply (simp add: analysis_stages_def Let_def split: sum.splits option.splits if_splits prod.splits)
  by (metis fst_conv)
lemma sqmToAcres_10000: "sqmToAcres (ieee_times sample_lib) 10000 = 2.471054"
  by (simp add: sqmToAcres_def sample_lib_def sample_times_def ACRES_PER_SQM_def Math_round_def)

text \<open>At 8500000 square metres the double product stays below the half that the exact
  product reaches, and the acreage ends in 738.\<close>

lemma sqmToAcres_8500000: "sqmToAcres (ieee_times sample_lib) 8500000 = 2100.395738"
  by (simp add: sqmToAcres_def sample_lib_def sample_times_def ACRES_PER_SQM_def Math_round_def)

lemma sample_props_lookup: "table_lookup sample_props ''123456'' = Rec (props_of_row unit_row)"
  by (simp add: table_lookup_def sample_props_def)

lemma sample_overlay_big:
  "calculateRobustIntersection sample_lib (Some big_soil) (Some study_square) =
     Some \<lparr>rr_geometry = Some study_square, rr_area = 10000, rr_method = ''turf_intersect''\<rparr>"
  by (simp add: sample_defs)

lemma sample_polygon:
  "process_polygon sample_lib ''123456'' (Some study_square) sample_props [CStr ''BIG''] =
     Some sample_feature"
proof -
  have p: "wkx_parse sample_lib (Some (CStr ''BIG'')) = Inr (Some big_soil)"
    by (simp add: sample_lib_def sample_parse_def)
  have i: "turf_booleanIntersects sample_lib (Some big_soil) (Some study_square) = Inr True"
    by (simp add: sample_lib_def)
  have a: "turf_area sample_lib (Some study_square) = Inr 10000"
    by (simp add: sample_lib_def sample_area_def)
  show ?thesis
    by (simp add: process_polygon_def intersect_polygon_def p i a sample_overlay_big
          sqmToAcres_10000 sample_props_lookup spread_record_def sample_feature_def
          props_of_row_def nth_opt_def unit_row_def)
qed

lemma sample_keys:
  "getSoilMapUnitKeys one_unit_net sample_wkt world0 = (Inr [''123456''], sample_world1)"
proof -
  have "executeSDQuery one_unit_net (mukeyQuery sample_wkt) MAX_RETRIES world0 =
          (Inr [[CStr ''123456'']], sample_world1)"
    by (subst executeSDQuery_first_success [where rows = "[[CStr ''123456'']]"])
       (simp_all add: one_unit_net_def try_attempt_table_response MAX_RETRIES_def world0_def
          sample_world1_def)
  then show ?thesis
    by (simp add: getSoilMapUnitKeys_def String_of_def nth_opt_def trim_def is_space_def)
qed

lemma sample_properties:
  "getSoilProperties one_unit_net [''123456''] sample_world1 = (Inr sample_props, sample_world2)"
proof -
  have "executeSDQuery one_unit_net (soilPropertiesQuery [''123456'']) MAX_RETRIES sample_world1 =
          (Inr [unit_row], sample_world2)"
    by (subst executeSDQuery_first_success [where rows = "[unit_row]"])
       (simp_all add: one_unit_net_def try_attempt_table_response MAX_RETRIES_def
          sample_world1_def sample_world2_def)
  moreover have "String_of (nth_opt unit_row 0) = ''123456''"
    by (simp add: String_of_def nth_opt_def unit_row_def)
  ultimately show ?thesis
    by (simp add: getSoilProperties_def sample_props_def table_assign_def empty_table_def)
qed

lemma sample_intersections:
  "calculateSoilIntersections one_unit_net sample_lib [''123456''] sample_wkt (Some study_square)
     sample_props (Some (sub_progress False)) sample_world2 =
   ([sample_unit], sample_world)"
proof -
  have q: "executeSDQuery one_unit_net (polygonQuery ''123456'') MAX_RETRIES sample_world2 =
          (Inr [[CStr ''BIG'']], sample_world)"
    by (subst executeSDQuery_first_success [where rows = "[[CStr ''BIG'']]"])
       (simp_all add: one_unit_net_def try_attempt_table_response MAX_RETRIES_def
          sample_world2_def sample_world_def)
  have sp: "truthy_member (table_lookup sample_props ''123456'')"
    by (simp add: sample_props_lookup truthy_member_def)
  have a: "if_area_acres sample_feature = 2.471054"
    by (simp add: sample_feature_def)
  show ?thesis
    using sp
    by (simp add: calculateSoilIntersections_def sub_progress_def report_def q sample_polygon a
          sample_unit_def)
qed

lemma sample_stages:
  "analysis_stages one_unit_net sample_lib square_collection (Some 0) False world0 =
     (Inr (Some [sample_unit]), sample_world)"
  using extractAndConvertGeometry_wkt [OF sample_extract]
  by (simp add: analysis_stages_def report_def sample_extract sample_keys limit_mukeys_def
        sample_properties sample_intersections)

lemma sample_run:
  "getSoilPolygonsAndAreas one_unit_net sample_lib (Some square_collection) (Some 0) False world0 =
     (Inr (assemble_result square_collection [sample_unit]), sample_world)"
  using square_collection_type
  by (simp add: getSoilPolygonsAndAreas_def soil_analysis_def sample_stages report_def)
lemma getSoilPolygonsAndAreas_Inr:
  assumes "getSoilPolygonsAndAreas net L gj maxResults has_callback w = (Inr res, w')"
  shows "\<exists>g. gj = Some g \<and>
           ((\<exists>w3. analysis_stages net L g maxResults has_callback w = (Inr None, w3) \<and>
               res = \<lparr>ar_type = ''FeatureCollection'', ar_features = [], ar_properties = None\<rparr>) \<or>
            (\<exists>results w7. analysis_stages net L g maxResults has_callback w = (Inr (Some results), w7) \<and>
               res = assemble_result g results))"
  using assms
  by (auto simp: getSoilPolygonsAndAreas_def soil_analysis_def
           split: option.splits if_splits prod.splits sum.splits)

lemma sum_list_concat_features:
  "list_all (unit_ok L sp keys) results \<Longrightarrow>
     sum_list (map if_area_acres (concat (map su_intersectionFeatures results))) =
     sum_list (map su_area_acres results)"
  by (induction results) (simp_all add: unit_ok_def)

text \<open>
  Claim C5. In every successful run that did not stop at an empty key list, the result's
  \<^verbatim>\<open>total_area_acres\<close> is the sum of the \<^verbatim>\<open>area_acres\<close> of the units that
  \<^verbatim>\<open>calculateSoilIntersections\<close> returned (and so of the features of the result),
  \<^verbatim>\<open>mapunit_count\<close> is the number of those units, and \<^verbatim>\<open>study_area\<close> is the input
  as it was given.
\<close>

theorem getSoilPolygonsAndAreas_properties:
  assumes "getSoilPolygonsAndAreas net L gj maxResults has_callback w = (Inr res, w')"
    and "ar_properties res = Some p"
  shows "\<exists>g results w7.
           gj = Some g \<and>
           analysis_stages net L g maxResults has_callback w = (Inr (Some results), w7) \<and>
           ar_features res = concat (map su_intersectionFeatures results) \<and>
           total_area_acres p = sum_list (map su_area_acres results) \<and>
           total_area_acres p = sum_list (map if_area_acres (ar_features res)) \<and>
           mapunit_count p = length results \<and>
           study_area p = g"
proof -
  from getSoilPolygonsAndAreas_Inr [OF assms(1)] assms(2)
  obtain g results w7 where g: "gj = Some g"
    and st: "analysis_stages net L g maxResults has_callback w = (Inr (Some results), w7)"
    and res: "res = assemble_result g results"
    by auto
  from analysis_stages_units [OF st] obtain sp keys where ok: "list_all (unit_ok L sp keys) results"
    by blast
  have p: "p = \<lparr>total_area_acres = sum_list (map su_area_acres results),
                mapunit_count = length results, study_area = g\<rparr>"
    using assms(2) res by (simp add: assemble_result_def foldl_area_sum)
  have f: "ar_features res = concat (map su_intersectionFeatures results)"
    using res by (simp add: assemble_result_def)
  show ?thesis
    using g st f p sum_list_concat_features [OF ok] by simp
qed

theorem getSoilPolygonsAndAreas_properties_witness:
  "getSoilPolygonsAndAreas one_unit_net sample_lib (Some square_collection) (Some 0) False world0 =
     (Inr (assemble_result square_collection [sample_unit]), sample_world) \<and>
   ar_properties (assemble_result square_collection [sample_unit]) =
     Some \<lparr>total_area_acres = 2.471054, mapunit_count = 1, study_area = square_collection\<rparr> \<and>
   (\<exists>g results w7.
      Some square_collection = Some g \<and>
      analysis_stages one_unit_net sample_lib g (Some 0) False world0 = (Inr (Some results), w7) \<and>
      ar_features (assemble_result square_collection [sample_unit]) =
        concat (map su_intersectionFeatures results) \<and>
      (2.471054 :: real) = sum_list (map su_area_acres results) \<and>
      (2.471054 :: real) = sum_list (map if_area_acres
                              (ar_features (assemble_result square_collection [sample_unit]))) \<and>
      (1 :: nat) = length results \<and>
      square_collection = g)"
proof -
  have p: "ar_properties (assemble_result square_collection [sample_unit]) =
     Some \<lparr>total_area_acres = 2.471054, mapunit_count = 1, study_area = square_collection\<rparr>"
    by (simp add: assemble_result_def sample_unit_def)
  from getSoilPolygonsAndAreas_properties [OF sample_run p] sample_run p
  show ?thesis by simp
qed

lemma reserved_lookup:
  assumes "k \<notin> set Object_prototype_names" and "k \<notin> set soil_field_names"
    and "truthy_member (table_lookup sp k)"
  shows "\<exists>p. st_own sp k = Some p \<and> table_lookup sp k = Rec p"
proof (cases "st_own sp k")
  case (Some p)
  then show ?thesis by (simp add: table_lookup_def)
next
  case None
  from assms(1) have np: "k \<noteq> ''__proto__''"
    by (auto simp: Object_prototype_names_def)
  from assms(2) have nf: "field_of p k = None" for p
    by (simp add: soil_field_names_def field_of_def)
  from None np nf assms(1) have "table_lookup sp k = Absent"
    by (simp add: table_lookup_def split: option.splits)
  with assms(3) show ?thesis by (simp add: truthy_member_def)
qed

text \<open>
  Claim C6. Every unit that \<^verbatim>\<open>calculateSoilIntersections\<close> returns has a total intersection
  area above zero and a property record under its key; a unit with no area or no property
  record is not in the output. The keys are those of map units: none of them is the name of a
  member that the property table inherits as a plain object.
\<close>

theorem calculateSoilIntersections_units:
  assumes "\<forall>k \<in> set mukeys. k \<notin> set Object_prototype_names \<and> k \<notin> set soil_field_names"
  shows "\<forall>u \<in> set (fst (calculateSoilIntersections net L mukeys wkt study sp cb w)).
           0 < su_area_acres u \<and> su_mukey u \<in> set mukeys \<and>
           (\<exists>p. st_own sp (su_mukey u) = Some p \<and> table_lookup sp (su_mukey u) = Rec p)"
proof
  fix u
  assume "u \<in> set (fst (calculateSoilIntersections net L mukeys wkt study sp cb w))"
  with calculateSoilIntersections_ok [of L sp mukeys net wkt study cb w]
  have ok: "unit_ok L sp (set mukeys) u" by (simp add: list_all_iff)
  then have k: "su_mukey u \<in> set mukeys" and t: "truthy_member (table_lookup sp (su_mukey u))"
    and pos: "0 < su_area_acres u"
    by (simp_all add: unit_ok_def)
  from assms k have "su_mukey u \<notin> set Object_prototype_names" "su_mukey u \<notin> set soil_field_names"
    by blast+
  from reserved_lookup [OF this t] pos k
  show "0 < su_area_acres u \<and> su_mukey u \<in> set mukeys \<and>
           (\<exists>p. st_own sp (su_mukey u) = Some p \<and> table_lookup sp (su_mukey u) = Rec p)"
    by simp
qed

theorem calculateSoilIntersections_units_witness:
  "''123456'' \<notin> set Object_prototype_names \<and> ''123456'' \<notin> set soil_field_names \<and>
   fst (calculateSoilIntersections one_unit_net sample_lib [''123456''] sample_wkt
          (Some study_square) sample_props (Some (sub_progress False)) sample_world2) = [sample_unit] \<and>
   0 < su_area_acres sample_unit \<and>
   st_own sample_props (su_mukey sample_unit) = Some (props_of_row unit_row)"
proof -
  have h: "\<forall>k \<in> set [''123456'']. k \<notin> set Object_prototype_names \<and> k \<notin> set soil_field_names"
    by (simp add: Object_prototype_names_def soil_field_names_def)
  have o: "st_own sample_props ''123456'' = Some (props_of_row unit_row)"
    by (simp add: sample_props_def)
  from calculateSoilIntersections_units [OF h, of one_unit_net sample_lib sample_wkt
          "Some study_square" sample_props "Some (sub_progress False)" sample_world2] h o
  show ?thesis
    by (simp add: sample_intersections sample_unit_def)
qed

text \<open>
  Claim C10. Every feature of a result of \<^verbatim>\<open>getSoilPolygonsAndAreas\<close> has as
  \<^verbatim>\<open>area_acres\<close> the value of \<^verbatim>\<open>sqmToAcres\<close> at its \<^verbatim>\<open>area_square_meters\<close>. That
  value is a whole number of millionths of an acre, and the whole number is the one nearest to
  the product of the area, 0.000247105381 and a million as the engine forms it, the upper one of
  two that are equally near: the acreage differs from a millionth of that product by half a
  millionth at most.
\<close>

theorem getSoilPolygonsAndAreas_feature_acres:
  assumes "getSoilPolygonsAndAreas net L gj maxResults has_callback w = (Inr res, w')"
    and "f \<in> set (ar_features res)"
  shows "if_area_acres f = sqmToAcres (ieee_times L) (if_area_square_meters f) \<and>
         (\<exists>k :: int.
            if_area_acres f = of_int k / 10 ^ 6 \<and>
            ieee_times L (ieee_times L (if_area_square_meters f) 0.000247105381) 1000000 - 1 / 2 < of_int k \<and>
            of_int k \<le> ieee_times L (ieee_times L (if_area_square_meters f) 0.000247105381) 1000000 + 1 / 2) \<and>
         \<bar>if_area_acres f -
            ieee_times L (ieee_times L (if_area_square_meters f) 0.000247105381) 1000000 / 10 ^ 6\<bar>
           \<le> 5 / 10 ^ 7"
proof -
  let ?P = "ieee_times L (ieee_times L (if_area_square_meters f) 0.000247105381) 1000000"
  from getSoilPolygonsAndAreas_Inr [OF assms(1)] assms(2)
  obtain g results w7
    where st: "analysis_stages net L g maxResults has_callback w = (Inr (Some results), w7)"
      and res: "res = assemble_result g results"
    by auto
  from analysis_stages_units [OF st] obtain sp keys where ok: "list_all (unit_ok L sp keys) results"
    by blast
  from assms(2) res obtain u where u: "u \<in> set results" and fu: "f \<in> set (su_intersectionFeatures u)"
    by (auto simp: assemble_result_def)
  from ok u have "list_all (feature_ok L sp (su_mukey u)) (su_intersectionFeatures u)"
    by (simp add: list_all_iff unit_ok_def)
  with fu have a: "if_area_acres f = sqmToAcres (ieee_times L) (if_area_square_meters f)"
    by (simp add: list_all_iff feature_ok_def)
  define k where "k = \<lfloor>?P + 1 / 2\<rfloor>"
  have b: "if_area_acres f = of_int k / 10 ^ 6"
    using a by (simp add: sqmToAcres_def ACRES_PER_SQM_def Math_round_def k_def)
  have lo: "?P - 1 / 2 < of_int k" and hi: "of_int k \<le> ?P + 1 / 2"
    unfolding k_def by linarith+
  have near: "\<bar>of_int k - ?P\<bar> \<le> 1 / 2" using lo hi by linarith
  have eq: "if_area_acres f - ?P / 10 ^ 6 = (of_int k - ?P) / 10 ^ 6"
    unfolding b by (simp add: diff_divide_distrib)
  have "\<bar>(of_int k - ?P) / 10 ^ 6\<bar> = \<bar>of_int k - ?P\<bar> / 10 ^ 6" by simp
  also have "\<dots> \<le> (1 / 2) / 10 ^ 6" using near by (rule divide_right_mono) simp
  finally have c: "\<bar>if_area_acres f - ?P / 10 ^ 6\<bar> \<le> 5 / 10 ^ 7"
    unfolding eq by simp
  from a b lo hi c show ?thesis by blast
qed

theorem getSoilPolygonsAndAreas_feature_acres_witness:
  "getSoilPolygonsAndAreas one_unit_net sample_lib (Some square_collection) (Some 0) False world0 =
     (Inr (assemble_result square_collection [sample_unit]), sample_world) \<and>
   sample_feature \<in> set (ar_features (assemble_result square_collection [sample_unit])) \<and>
   if_area_square_meters sample_feature = 10000 \<and>
   ieee_times sample_lib (ieee_times sample_lib 10000 0.000247105381) 1000000 =
     5306547650303099 / 2 ^ 31 \<and>
   if_area_acres sample_feature = sqmToAcres (ieee_times sample_lib) (if_area_square_meters sample_feature) \<and>
   if_area_acres sample_feature = of_int 2471054 / 10 ^ 6"
proof -
  have f: "sample_feature \<in> set (ar_features (assemble_result square_collection [sample_unit]))"
    by (simp add: assemble_result_def sample_unit_def)
  have v: "if_area_square_meters sample_feature = 10000" "if_area_acres sample_feature = 2.471054"
    by (simp_all add: sample_feature_def)
  have p: "ieee_times sample_lib (ieee_times sample_lib 10000 0.000247105381) 1000000 =
     5306547650303099 / 2 ^ 31"
    by (simp add: sample_lib_def sample_times_def ACRES_PER_SQM_def)
  from getSoilPolygonsAndAreas_feature_acres [OF sample_run f] sample_run f p
  show ?thesis by (simp add: v sqmToAcres_10000)
qed

section \<open>The cap on the key list\<close>

lemma executeSDQuery_loop_fetched:
  assumes "executeSDQuery_loop net body retries attempt lastError w = (res, w')"
  shows "\<exists>k. k \<le> retries - attempt \<and> (attempt < retries \<longrightarrow> 1 \<le> k) \<and>
           fetched (events w') = fetched (events w) @ replicate k body"
  using assms
proof (induction "retries - attempt" arbitrary: attempt lastError w)
  case 0
  then have "w' = w" by (simp add: executeSDQuery_loop.simps)
  then show ?case by (intro exI [of _ 0]) (use 0 in simp)
next
  case (Suc n)
  then have lt: "attempt < retries" by simp
  define w1 where "w1 = w\<lparr>sent := sent w + 1, events := events w @ [Fetched body]\<rparr>"
  have f1: "fetched (events w1) = fetched (events w) @ [body]"
    by (simp add: w1_def fetched_def)
  show ?case
  proof (cases "\<exists>nm msg. try_attempt (net (sent w) body) = Inl (JsError nm msg) \<and> nm \<noteq> ''AbortError''")
    case False
    with Suc.prems lt have "w' = w1"
      by (subst (asm) executeSDQuery_loop.simps)
         (auto simp: Let_def w1_def split: sum.splits js_error.splits if_splits)
    with f1 lt show ?thesis by (intro exI [of _ 1]) simp
  next
    case True
    then obtain nm msg where e: "try_attempt (net (sent w) body) = Inl (JsError nm msg)"
      and nm: "nm \<noteq> ''AbortError''" by blast
    define w2 where "w2 = (if attempt < retries - 1
        then w1\<lparr>events := events w1 @ [Waited (backoff_delay attempt)]\<rparr> else w1)"
    have f2: "fetched (events w2) = fetched (events w) @ [body]"
      using f1 by (simp add: w2_def fetched_def)
    from Suc.prems lt e nm
    have run: "executeSDQuery_loop net body retries (attempt + 1) (JsError nm msg) w2 = (res, w')"
      by (subst (asm) executeSDQuery_loop.simps)
         (auto simp: Let_def w1_def w2_def split: if_splits)
    have n: "n = retries - (attempt + 1)" using Suc.hyps(2) by simp
    from Suc.hyps(1) [OF n run] obtain k where k: "k \<le> retries - (attempt + 1)"
      and fk: "fetched (events w') = fetched (events w2) @ replicate k body" by blast
    have "fetched (events w') = fetched (events w) @ replicate (Suc k) body"
      using fk f2 by (simp add: replicate_append_same)
    moreover have "Suc k \<le> retries - attempt" using k lt by simp
    ultimately show ?thesis by (intro exI [of _ "Suc k"]) simp
  qed
qed

lemma executeSDQuery_fetched:
  assumes "executeSDQuery net q MAX_RETRIES w = (res, w')"
  shows "\<exists>k. 1 \<le> k \<and> k \<le> MAX_RETRIES \<and>
           fetched (events w') = fetched (events w) @ replicate k (trim q)"
  using executeSDQuery_loop_fetched [of net "trim q" MAX_RETRIES 0 JsUndefined w res w'] assms
  by (auto simp: executeSDQuery_def MAX_RETRIES_def)

lemma report_fetched: "fetched (events (report c pct msg w)) = fetched (events w)"
  by (simp add: report_def emit_def fetched_def)

lemma sub_progress_fetched: "fetched (events (sub_progress c p w)) = fetched (events w)"
  by (simp add: sub_progress_def report_fetched)

lemma mukey_loop_fetched:
  assumes "mukey_loop net L n study sp (Some cb) ks results processed w = ((results', processed'), w')"
    and "\<And>p v. fetched (events (cb p v)) = fetched (events v)"
  shows "\<exists>ns. length ns = length ks \<and> (\<forall>i \<in> set ns. 1 \<le> i \<and> i \<le> MAX_RETRIES) \<and>
           fetched (events w') =
             fetched (events w) @ concat (map2 replicate ns (map (\<lambda>k. trim (polygonQuery k)) ks))"
  using assms(1)
proof (induction ks arbitrary: results processed w)
  case Nil
  then show ?case by simp
next
  case (Cons mukey rest)
  define w1 where "w1 = cb \<lparr>pg_current = int processed, pg_total = int n,
                      pg_message = ''Processing soil unit '' @ mukey @ ''...'',
                      pg_percentage = Math_round (real processed / real n * 100)\<rparr> w"
  obtain r w2 where q: "executeSDQuery net (polygonQuery mukey) MAX_RETRIES w1 = (r, w2)"
    by (cases "executeSDQuery net (polygonQuery mukey) MAX_RETRIES w1")
  from executeSDQuery_fetched [OF q] obtain k where k: "1 \<le> k" "k \<le> MAX_RETRIES"
    and fk: "fetched (events w2) = fetched (events w1) @ replicate k (trim (polygonQuery mukey))"
    by blast
  have f1: "fetched (events w1) = fetched (events w)"
    by (simp add: w1_def assms(2))
  from Cons.prems q obtain results2 where
    run: "mukey_loop net L n study sp (Some cb) rest results2 (processed + 1) w2 =
            ((results', processed'), w')"
    by (auto simp: w1_def Let_def split: sum.splits if_splits prod.splits)
  from Cons.IH [OF run] obtain ns where ns: "length ns = length rest"
    "\<forall>i \<in> set ns. 1 \<le> i \<and> i \<le> MAX_RETRIES"
    and fr: "fetched (events w') =
             fetched (events w2) @ concat (map2 replicate ns (map (\<lambda>k. trim (polygonQuery k)) rest))"
    by blast
  show ?case
    using ns k fk f1 fr by (intro exI [of _ "k # ns"]) simp
qed

lemma calculateSoilIntersections_fetched:
  assumes "calculateSoilIntersections net L ks wkt study sp (Some cb) w = (results, w')"
    and "\<And>p v. fetched (events (cb p v)) = fetched (events v)"
  shows "\<exists>ns. length ns = length ks \<and> (\<forall>i \<in> set ns. 1 \<le> i \<and> i \<le> MAX_RETRIES) \<and>
           fetched (events w') =
             fetched (events w) @ concat (map2 replicate ns (map (\<lambda>k. trim (polygonQuery k)) ks))"
proof -
  obtain rs pr w1 where run: "mukey_loop net L (length ks) study sp (Some cb) ks [] 0 w = ((rs, pr), w1)"
    by (metis surj_pair)
  with assms(1) have "fetched (events w') = fetched (events w1)"
    by (auto simp: calculateSoilIntersections_def assms(2))
  with mukey_loop_fetched [OF run assms(2)] show ?thesis by simp
qed
lemma getSoilProperties_fetched:
  assumes "getSoilProperties net ks w = (Inr sp, w')" and "ks \<noteq> []"
  shows "\<exists>k. 1 \<le> k \<and> k \<le> MAX_RETRIES \<and>
           fetched (events w') = fetched (events w) @ replicate k (trim (soilPropertiesQuery ks))"
proof -
  obtain r w1 where q: "executeSDQuery net (soilPropertiesQuery ks) MAX_RETRIES w = (r, w1)"
    by (cases "executeSDQuery net (soilPropertiesQuery ks) MAX_RETRIES w")
  with assms have "w' = w1"
    by (auto simp: getSoilProperties_def split: sum.splits)
  with executeSDQuery_fetched [OF q] show ?thesis by simp
qed

text \<open>
  Claim C3, as the code has it. Take a run of \<^verbatim>\<open>getSoilPolygonsAndAreas\<close> with a
  \<^verbatim>\<open>maxResults\<close> given as a number, whose lookup found the keys \<open>mukeys\<close> and which
  returned a result. The keys kept are all of \<open>mukeys\<close> when \<^verbatim>\<open>maxResults\<close> is zero or
  below, and the first \<^verbatim>\<open>maxResults\<close> of them, in the order of the lookup, when it is
  positive. After the lookup the run sends the property query for exactly the keys kept and then
  the polygon query of each key kept, in that order, each between one and three times, and no
  other query.
\<close>

theorem getSoilPolygonsAndAreas_cap:
  assumes "getSoilPolygonsAndAreas net L (Some g) (Some m) has_callback w = (Inr res, w')"
    and "extractAndConvertGeometry L (Some g) = Inr (Some (studyAreaGeometry, studyAreaWkt))"
    and "getSoilMapUnitKeys net studyAreaWkt
           (report has_callback 20 ''Finding soil map units...''
              (report has_callback 0 ''Converting geometry...'' w)) = (Inr mukeys, w3)"
    and "mukeys \<noteq> []"
    and "kept = (if 0 < m then take (nat m) mukeys else mukeys)"
  shows "\<exists>ns. length ns = Suc (length kept) \<and>
           (\<forall>i \<in> set ns. 1 \<le> i \<and> i \<le> MAX_RETRIES) \<and>
           fetched (events w') =
             fetched (events w3) @
             concat (map2 replicate ns
                      (trim (soilPropertiesQuery kept) # map (\<lambda>k. trim (polygonQuery k)) kept))"
proof -
  have kept: "kept = limit_mukeys (Some m) mukeys"
    using assms(5) by (simp add: limit_mukeys_def)
  have ne: "kept \<noteq> []"
    using assms(4,5) by (cases mukeys) (auto simp: take_Cons' )
  have ty: "truthy_str (gj_type g)"
    using assms(1)
    by (auto simp: getSoilPolygonsAndAreas_def soil_analysis_def split: if_splits)
  define w4 where "w4 = report has_callback 40 ''Retrieving soil properties...'' w3"
  obtain r5 w5 where gp: "getSoilProperties net kept w4 = (r5, w5)"
    by (cases "getSoilProperties net kept w4")
  show ?thesis
  proof (cases r5)
    case (Inl e)
    with gp assms(2-4) extractAndConvertGeometry_wkt [OF assms(2)] ty
    have "fst (getSoilPolygonsAndAreas net L (Some g) (Some m) has_callback w) =
            Inl (rethrow ''Soil analysis failed: '' e)"
      by (simp add: getSoilPolygonsAndAreas_def soil_analysis_def analysis_stages_def Let_def
            kept [symmetric] w4_def [symmetric])
    with assms(1) show ?thesis by simp
  next
    case (Inr sp)
    define w6 where "w6 = report has_callback 60 ''Calculating spatial intersections...'' w5"
    obtain results w7 where ci:
      "calculateSoilIntersections net L kept studyAreaWkt (Some studyAreaGeometry) sp
         (Some (sub_progress has_callback)) w6 = (results, w7)"
      by (metis surj_pair)
    from Inr gp ci assms(2-4) extractAndConvertGeometry_wkt [OF assms(2)] ty
    have "snd (getSoilPolygonsAndAreas net L (Some g) (Some m) has_callback w) =
            report has_callback 100 ''Analysis complete'' w7"
      by (simp add: getSoilPolygonsAndAreas_def soil_analysis_def analysis_stages_def Let_def
            kept [symmetric] w4_def [symmetric] w6_def [symmetric])
    with assms(1) have w': "w' = report has_callback 100 ''Analysis complete'' w7" by simp
    from getSoilProperties_fetched [OF gp [unfolded Inr] ne] obtain k
      where k: "1 \<le> k" "k \<le> MAX_RETRIES"
        and f5: "fetched (events w5) = fetched (events w4) @ replicate k (trim (soilPropertiesQuery kept))"
      by blast
    from calculateSoilIntersections_fetched [OF ci sub_progress_fetched] obtain ns
      where ns: "length ns = length kept" "\<forall>i \<in> set ns. 1 \<le> i \<and> i \<le> MAX_RETRIES"
        and f7: "fetched (events w7) =
                   fetched (events w6) @
                   concat (map2 replicate ns (map (\<lambda>k. trim (polygonQuery k)) kept))"
      by blast
    have "fetched (events w') =
            fetched (events w3) @
            concat (map2 replicate (k # ns)
                     (trim (soilPropertiesQuery kept) # map (\<lambda>k. trim (polygonQuery k)) kept))"
      using f5 f7 by (simp add: w' w6_def w4_def report_fetched)
    with ns k show ?thesis
      by (intro exI [of _ "k # ns"]) simp
  qed
qed
lemma keys_net_query:
  assumes "0 < sent w"
  shows "executeSDQuery (keys_net ks) q MAX_RETRIES w =
           (Inr [], w\<lparr>sent := sent w + 1, events := events w @ [Fetched (trim q)]\<rparr>)"
  using assms
  by (subst executeSDQuery_first_success [where rows = "[]"])
     (simp_all add: keys_net_def try_attempt_table_response MAX_RETRIES_def)

lemma keys_net_loop:
  assumes "0 < sent w"
  shows "mukey_loop (keys_net ks) L n study sp (Some (sub_progress False)) kept results processed w =
           ((results, processed + length kept),
            w\<lparr>sent := sent w + length kept,
              events := events w @ map (\<lambda>k. Fetched (trim (polygonQuery k))) kept\<rparr>)"
  using assms
proof (induction kept arbitrary: processed w)
  case Nil
  then show ?case by simp
next
  case (Cons k kept)
  have "0 < sent (w\<lparr>sent := sent w + 1, events := events w @ [Fetched (trim (polygonQuery k))]\<rparr>)"
    by simp
  from Cons.IH [OF this, of "processed + 1"] Cons.prems
  show ?case
    by (simp add: sub_progress_def report_def keys_net_query)
qed

lemma keys_net_run:
  assumes "ks \<noteq> []"
    and "\<forall>k \<in> set ks. k \<noteq> [] \<and> trim k \<noteq> []"
    and "kept = limit_mukeys maxResults ks"
    and "kept \<noteq> []"
  shows "getSoilPolygonsAndAreas (keys_net ks) sample_lib (Some square_collection) maxResults False
           world0 =
         (Inr (assemble_result square_collection []),
          \<lparr>sent = 2 + length kept,
           events = Fetched (trim (mukeyQuery sample_wkt)) #
                    Fetched (trim (soilPropertiesQuery kept)) #
                    map (\<lambda>k. Fetched (trim (polygonQuery k))) kept\<rparr>)"
proof -
  have "executeSDQuery (keys_net ks) (mukeyQuery sample_wkt) MAX_RETRIES world0 =
          (Inr (map (\<lambda>k. [CStr k]) ks), sample_world1)"
    by (subst executeSDQuery_first_success [where rows = "map (\<lambda>k. [CStr k]) ks"])
       (simp_all add: keys_net_def try_attempt_table_response MAX_RETRIES_def world0_def
          sample_world1_def)
  moreover have "filter (\<lambda>key. key \<noteq> [] \<and> trim key \<noteq> [])
                   (map (\<lambda>r. String_of (nth_opt r 0)) (map (\<lambda>k. [CStr k]) ks)) = ks"
    using assms(2) by (induction ks) (simp_all add: String_of_def nth_opt_def)
  ultimately have look: "getSoilMapUnitKeys (keys_net ks) sample_wkt world0 = (Inr ks, sample_world1)"
    by (simp add: getSoilMapUnitKeys_def)
  have props: "getSoilProperties (keys_net ks) kept sample_world1 =
                 (Inr empty_table,
                  \<lparr>sent = 2, events = [Fetched (trim (mukeyQuery sample_wkt)),
                                       Fetched (trim (soilPropertiesQuery kept))]\<rparr>)"
    using assms(4)
    by (simp add: getSoilProperties_def keys_net_query sample_world1_def)
  have inter: "calculateSoilIntersections (keys_net ks) sample_lib kept sample_wkt (Some study_square)
                 empty_table (Some (sub_progress False))
                 \<lparr>sent = 2, events = [Fetched (trim (mukeyQuery sample_wkt)),
                                      Fetched (trim (soilPropertiesQuery kept))]\<rparr> =
               ([], \<lparr>sent = 2 + length kept,
                     events = Fetched (trim (mukeyQuery sample_wkt)) #
                              Fetched (trim (soilPropertiesQuery kept)) #
                              map (\<lambda>k. Fetched (trim (polygonQuery k))) kept\<rparr>)"
    by (simp add: calculateSoilIntersections_def keys_net_loop sub_progress_def report_def)
  show ?thesis
    using square_collection_type extractAndConvertGeometry_wkt [OF sample_extract] assms(1)
    by (simp add: getSoilPolygonsAndAreas_def soil_analysis_def analysis_stages_def Let_def
          sample_extract report_def look assms(3) [symmetric] props inter)
qed

theorem getSoilPolygonsAndAreas_cap_witness:
  "getSoilPolygonsAndAreas (keys_net [''101'', ''102'', ''103'']) sample_lib (Some square_collection)
     (Some 2) False world0 =
     (Inr (assemble_result square_collection []),
      \<lparr>sent = 4,
       events = [Fetched (trim (mukeyQuery sample_wkt)),
                 Fetched (trim (soilPropertiesQuery [''101'', ''102''])),
                 Fetched (trim (polygonQuery ''101'')),
                 Fetched (trim (polygonQuery ''102''))]\<rparr>) \<and>
   getSoilMapUnitKeys (keys_net [''101'', ''102'', ''103'']) sample_wkt world0 =
     (Inr [''101'', ''102'', ''103''], sample_world1) \<and>
   fetched [Fetched (trim (mukeyQuery sample_wkt)),
            Fetched (trim (soilPropertiesQuery [''101'', ''102''])),
            Fetched (trim (polygonQuery ''101'')),
            Fetched (trim (polygonQuery ''102''))] =
     fetched (events sample_world1) @
     concat (map2 replicate [1, 1, 1]
              [trim (soilPropertiesQuery [''101'', ''102'']),
               trim (polygonQuery ''101''), trim (polygonQuery ''102'')])"
proof -
  have tr: "\<forall>k \<in> set [''101'', ''102'', ''103'']. k \<noteq> [] \<and> trim k \<noteq> []"
    by (simp add: trim_def is_space_def)
  have run: "getSoilPolygonsAndAreas (keys_net [''101'', ''102'', ''103'']) sample_lib
               (Some square_collection) (Some 2) False world0 =
     (Inr (assemble_result square_collection []),
      \<lparr>sent = 4,
       events = [Fetched (trim (mukeyQuery sample_wkt)),
                 Fetched (trim (soilPropertiesQuery [''101'', ''102''])),
                 Fetched (trim (polygonQuery ''101'')),
                 Fetched (trim (polygonQuery ''102''))]\<rparr>)"
    using keys_net_run [OF _ tr, of "[''101'', ''102'']" "Some 2"]
    by (simp add: limit_mukeys_def)
  have look0: "getSoilMapUnitKeys (keys_net [''101'', ''102'', ''103'']) sample_wkt world0 =
              (Inr [''101'', ''102'', ''103''], sample_world1)"
  proof -
    have "executeSDQuery (keys_net [''101'', ''102'', ''103'']) (mukeyQuery sample_wkt) MAX_RETRIES world0 =
          (Inr [[CStr ''101''], [CStr ''102''], [CStr ''103'']], sample_world1)"
      by (subst executeSDQuery_first_success
            [where rows = "[[CStr ''101''], [CStr ''102''], [CStr ''103'']]"])
         (simp_all add: keys_net_def try_attempt_table_response MAX_RETRIES_def world0_def
            sample_world1_def)
    then show ?thesis
      by (simp add: getSoilMapUnitKeys_def String_of_def nth_opt_def trim_def is_space_def)
  qed
  then have look: "getSoilMapUnitKeys (keys_net [''101'', ''102'', ''103'']) sample_wkt
                (report False 20 ''Finding soil map units...''
                   (report False 0 ''Converting geometry...'' world0)) =
              (Inr [''101'', ''102'', ''103''], sample_world1)"
    by (simp add: report_def)
  have ne: "[''101'', ''102'', ''103''] \<noteq> []" by simp
  have kept: "[''101'', ''102''] = (if 0 < (2::int) then take (nat 2) [''101'', ''102'', ''103'']
                 else [''101'', ''102'', ''103''])"
    by simp
  have f: "fetched [Fetched (trim (mukeyQuery sample_wkt)),
            Fetched (trim (soilPropertiesQuery [''101'', ''102''])),
            Fetched (trim (polygonQuery ''101'')),
            Fetched (trim (polygonQuery ''102''))] =
     fetched (events sample_world1) @
     concat (map2 replicate [1, 1, 1]
              [trim (soilPropertiesQuery [''101'', ''102'']),
               trim (polygonQuery ''101''), trim (polygonQuery ''102'')])"
    by (simp add: fetched_def sample_world1_def)
  from getSoilPolygonsAndAreas_cap [OF run sample_extract look ne kept] run look0 f
  show ?thesis by blast
qed

text \<open>The claim as stated fails for an absent \<^verbatim>\<open>maxResults\<close>: the parameter list gives it
  the default 100, and of the 101 keys of the lookup the run queries the first hundred only.\<close>

theorem getSoilPolygonsAndAreas_absent_truncates:
  "getSoilPolygonsAndAreas (keys_net (replicate 100 ''101'' @ [''102''])) sample_lib
     (Some square_collection) None False world0 =
     (Inr (assemble_result square_collection []),
      \<lparr>sent = 102,
       events = Fetched (trim (mukeyQuery sample_wkt)) #
                Fetched (trim (soilPropertiesQuery (replicate 100 ''101''))) #
                replicate 100 (Fetched (trim (polygonQuery ''101'')))\<rparr>) \<and>
   length (replicate 100 ''101'' @ [''102'']) = 101"
proof -
  have tr: "\<forall>k \<in> set (replicate 100 ''101'' @ [''102'']). k \<noteq> [] \<and> trim k \<noteq> []"
    by (auto simp: trim_def is_space_def)
  have kept: "replicate 100 ''101'' = limit_mukeys None (replicate 100 ''101'' @ [''102''])"
    by (simp add: limit_mukeys_def)
  from keys_net_run [OF _ tr kept]
  show ?thesis by (simp add: map_replicate_const)
qed

section \<open>Properties of the change detector\<close>

text \<open>
  Claim C8. The fingerprint depends on the payload only through its type and the type and
  geometry of each feature: two payloads that agree on these have the same digest, whatever
  their other feature properties are.
\<close>

theorem generateGeometryHash_structural:
  assumes "gj_type p = gj_type q"
    and "map_option (map (\<lambda>f. (feat_type f, feat_geometry f))) (gj_features p) =
         map_option (map (\<lambda>f. (feat_type f, feat_geometry f))) (gj_features q)"
  shows "generateGeometryHash JSON_stringify (Some p) = generateGeometryHash JSON_stringify (Some q)"
proof (cases "gj_features p")
  case None
  with assms(2) have "gj_features q = None" by simp
  with None show ?thesis by (simp add: generateGeometryHash_def)
next
  case (Some fs)
  with assms(2) obtain gs where q: "gj_features q = Some gs"
    and eq: "map (\<lambda>f. (feat_type f, feat_geometry f)) fs = map (\<lambda>f. (feat_type f, feat_geometry f)) gs"
    by (cases "gj_features q") auto
  have "map (\<lambda>f. \<lparr>sf_type = feat_type f, sf_geometry = feat_geometry f\<rparr>) fs =
        map ((\<lambda>(t, g). \<lparr>sf_type = t, sf_geometry = g\<rparr>) \<circ> (\<lambda>f. (feat_type f, feat_geometry f))) fs"
    by simp
  also have "\<dots> = map (\<lambda>(t, g). \<lparr>sf_type = t, sf_geometry = g\<rparr>)
                     (map (\<lambda>f. (feat_type f, feat_geometry f)) gs)"
    unfolding eq [symmetric] by simp
  also have "\<dots> = map (\<lambda>f. \<lparr>sf_type = feat_type f, sf_geometry = feat_geometry f\<rparr>) gs"
    by simp
  finally show ?thesis
    using Some q assms(1) by (simp add: generateGeometryHash_def)
qed

lemma sample_digest:
  "generateGeometryHash sample_stringify (Some square_collection) = Some ''-878589374''"
  by (simp add: generateGeometryHash_def square_collection_def sample_stringify_def
        hash_step_def push_bit_eq_mult show_int_def digit_char_def)

theorem generateGeometryHash_structural_witness:
  "feat_properties (hd (the (gj_features square_collection))) \<noteq>
     feat_properties (hd (the (gj_features named_square_collection))) \<and>
   generateGeometryHash sample_stringify (Some named_square_collection) =
     generateGeometryHash sample_stringify (Some square_collection) \<and>
   generateGeometryHash sample_stringify (Some named_square_collection) = Some ''-878589374''"
proof -
  have t: "gj_type named_square_collection = gj_type square_collection"
    by (simp add: named_square_collection_def square_collection_def)
  have f: "map_option (map (\<lambda>f. (feat_type f, feat_geometry f))) (gj_features named_square_collection) =
           map_option (map (\<lambda>f. (feat_type f, feat_geometry f))) (gj_features square_collection)"
    by (simp add: named_square_collection_def square_collection_def)
  have d: "feat_properties (hd (the (gj_features square_collection))) \<noteq>
           feat_properties (hd (the (gj_features named_square_collection)))"
    by (simp add: named_square_collection_def square_collection_def)
  from generateGeometryHash_structural [OF t f, of sample_stringify] d sample_digest
  show ?thesis by simp
qed

end
